theory Spec2Isabelle
  imports Main "HOL-Library.Sublist"
begin

section \<open>Strings and paths\<close>

text \<open>
  JavaScript strings are modelled as \<^typ>\<open>string\<close>, one \<^typ>\<open>char\<close> per code unit.
  \<open>endsWith\<close> is \<^verbatim>\<open>String.prototype.endsWith\<close>, \<open>contains\<close> is
  \<^verbatim>\<open>String.prototype.includes\<close>, and \<open>replace_first\<close> is
  \<^verbatim>\<open>String.prototype.replace\<close> with a string pattern, which replaces the first
  occurrence only.
\<close>

definition endsWith :: "string \<Rightarrow> string \<Rightarrow> bool" where
  "endsWith s suf = (length suf \<le> length s \<and> drop (length s - length suf) s = suf)"

fun contains :: "string \<Rightarrow> string \<Rightarrow> bool" where
  "contains pat [] = (pat = [])"
| "contains pat (c # cs) = (prefix pat (c # cs) \<or> contains pat cs)"

fun replace_first :: "string \<Rightarrow> string \<Rightarrow> string \<Rightarrow> string" where
  "replace_first pat rep [] = (if pat = [] then rep else [])"
| "replace_first pat rep (c # cs) =
     (if prefix pat (c # cs) then rep @ drop (length pat) (c # cs)
      else c # replace_first pat rep cs)"

text \<open>
  \<^verbatim>\<open>String.prototype.trim\<close> removes leading and trailing white space; the white-space
  code units below 256 are tab, line feed, vertical tab, form feed, carriage return, space
  and no-break space.
\<close>

definition is_space :: "char \<Rightarrow> bool" where
  "is_space c = (c = CHR 0x09 \<or> c = CHR 0x0A \<or> c = CHR 0x0B \<or> c = CHR 0x0C \<or>
                 c = CHR 0x0D \<or> c = CHR 0x20 \<or> c = CHR 0xA0)"

definition trim :: "string \<Rightarrow> string" where
  "trim s = rev (dropWhile is_space (rev (dropWhile is_space s)))"

text \<open>
  \<open>remove_fences lit\<close> is \<^verbatim>\<open>text.replace(/LIT\n?/g, '')\<close> for a non-empty literal
  \<open>lit\<close>: scanning from the left, every occurrence of the literal is deleted together with
  one directly following line feed, and scanning resumes after the match.
\<close>

fun skip_newline :: "string \<Rightarrow> string" where
  "skip_newline [] = []"
| "skip_newline (c # cs) = (if c = CHR 0x0A then cs else c # cs)"

lemma length_skip_newline: "length (skip_newline s) \<le> length s"
  by (cases s) auto

function remove_fences :: "string \<Rightarrow> string \<Rightarrow> string" where
  "remove_fences lit [] = []"
| "remove_fences lit (c # cs) =
     (if lit \<noteq> [] \<and> prefix lit (c # cs)
      then remove_fences lit (skip_newline (drop (length lit) (c # cs)))
      else c # remove_fences lit cs)"
  by pat_completeness auto
termination
proof (relation "measure (\<lambda>(lit, s). length s)", goal_cases)
  case 1
  show ?case by simp
next
  case (2 lit c cs)
  then have "0 < length lit" by simp
  then have "length (drop (length lit) (c # cs)) \<le> length cs"
    by (cases "length lit") auto
  with length_skip_newline [of "drop (length lit) (c # cs)"] show ?case by simp
next
  case 3
  show ?case by simp
qed

text \<open>
  \<^verbatim>\<open>cleanJsonResponse\<close> (server.js lines 70--75) and \<^verbatim>\<open>cleanPythonResponse\<close>
  (lines 78--83).
\<close>

definition cleanJsonResponse :: "string \<Rightarrow> string" where
  "cleanJsonResponse text = trim (remove_fences ''```'' (remove_fences ''```json'' text))"

definition cleanPythonResponse :: "string \<Rightarrow> string" where
  "cleanPythonResponse text = trim (remove_fences ''```'' (remove_fences ''```python'' text))"

text \<open>\<^verbatim>\<open>Array.prototype.join\<close> on an array of strings.\<close>

fun join_with :: "string \<Rightarrow> string list \<Rightarrow> string" where
  "join_with sep [] = []"
| "join_with sep [x] = x"
| "join_with sep (x # y # ys) = x @ sep @ join_with sep (y # ys)"

text \<open>
  Paths are written relative to the directory of server.js (\<^verbatim>\<open>__dirname\<close>), with
  \<open>/\<close> as separator. \<open>path_join\<close> is \<^verbatim>\<open>path.join\<close> of a normalised directory and
  one more component, \<open>basename\<close> is \<^verbatim>\<open>path.basename\<close>, and \<open>segments\<close> lists the
  non-empty components of a path, which is how the file system resolves it.
\<close>

definition path_join :: "string \<Rightarrow> string \<Rightarrow> string" where
  "path_join dir name = dir @ ''/'' @ name"

definition basename :: "string \<Rightarrow> string" where
  "basename p = rev (takeWhile (\<lambda>c. c \<noteq> CHR ''/'') (rev p))"

fun splitOn :: "char \<Rightarrow> string \<Rightarrow> string list" where
  "splitOn sep [] = [[]]"
| "splitOn sep (c # cs) =
     (if c = sep then [] # splitOn sep cs
      else (case splitOn sep cs of [] \<Rightarrow> [[c]] | s # ss \<Rightarrow> (c # s) # ss))"

definition segments :: "string \<Rightarrow> string list" where
  "segments p = filter (\<lambda>s. s \<noteq> []) (splitOn CHR ''/'' p)"

text \<open>
  Decimal rendering of a number inside a template literal. A child's exit code is
  \<^typ>\<open>int option\<close>: \<open>None\<close> is JavaScript's \<^verbatim>\<open>null\<close>, the code of a child that was
  ended by a signal.
\<close>

definition digit :: "nat \<Rightarrow> char" where
  "digit d = ''0123456789'' ! d"

function show_nat :: "nat \<Rightarrow> string" where
  "show_nat n = (if n < 10 then [digit n] else show_nat (n div 10) @ [digit (n mod 10)])"
  by pat_completeness auto
termination
  by (relation "measure (\<lambda>n. n)") auto

declare show_nat.simps [simp del]

definition show_int :: "int \<Rightarrow> string" where
  "show_int i = (if i < 0 then ''-'' @ show_nat (nat (- i)) else show_nat (nat i))"

definition show_code :: "int option \<Rightarrow> string" where
  "show_code code = (case code of None \<Rightarrow> ''null'' | Some i \<Rightarrow> show_int i)"

section \<open>Request data\<close>

text \<open>
  The values a JSON request body can bind to a key of \<^verbatim>\<open>approach.code\<close>, as far as
  JavaScript's truthiness tells them apart: \<open>JUndefined\<close> is an absent key, \<open>JNum\<close> a number
  (of which only zero is falsy; fractions behave like any non-zero number), \<open>JObject\<close> any
  object or array. \<open>js_or\<close> is the operator \<^verbatim>\<open>||\<close>.
\<close>

datatype jsval = JUndefined | JNull | JBool bool | JNum int | JStr string | JObject

fun truthy :: "jsval \<Rightarrow> bool" where
  "truthy JUndefined = False"
| "truthy JNull = False"
| "truthy (JBool b) = b"
| "truthy (JNum n) = (n \<noteq> 0)"
| "truthy (JStr s) = (s \<noteq> [])"
| "truthy JObject = True"

definition js_or :: "jsval \<Rightarrow> jsval \<Rightarrow> jsval" where
  "js_or a b = (if truthy a then a else b)"

text \<open>
  The request body of \<^verbatim>\<open>POST /api/getAnimation\<close> is an \<open>approach option\<close>:
  \<open>None\<close> is a missing or falsy \<^verbatim>\<open>approach\<close>. The field \<open>code\<close> is \<open>None\<close> when
  \<^verbatim>\<open>approach.code\<close> is undefined or null, so that reading a key of it throws.
  \<open>selectCode\<close> is the expression of lines 434--437.
\<close>

record code_map =
  javaCode :: jsval
  cppCode :: jsval
  pythonCode :: jsval
  jsCode :: jsval

record approach =
  title :: string
  code :: "code_map option"

definition selectCode :: "code_map \<Rightarrow> jsval" where
  "selectCode c = js_or (js_or (js_or (javaCode c) (cppCode c)) (pythonCode c)) (jsCode c)"

section \<open>The file system\<close>

text \<open>
  The file system below \<^verbatim>\<open>__dirname\<close> is a finite tree. A node is a regular file, a
  directory with its entries in listing order and a flag saying whether it can be listed,
  or something else (a link, a socket). File contents are not recorded: no claim reads
  them. \<open>readdir\<close> is what \<^verbatim>\<open>fs.readdirSync(dir, {withFileTypes: true})\<close> does on the
  node at \<open>dir\<close>: it raises on a node that is not a directory and on a directory that
  cannot be listed.
\<close>

datatype fsnode = FileN | OtherN | DirN bool "(string \<times> fsnode) list"

fun isFile :: "fsnode \<Rightarrow> bool" where
  "isFile FileN = True"
| "isFile _ = False"

fun isDirectory :: "fsnode \<Rightarrow> bool" where
  "isDirectory (DirN r es) = True"
| "isDirectory _ = False"

fun readdir :: "fsnode \<Rightarrow> string + (string \<times> fsnode) list" where
  "readdir (DirN r es) = (if r then Inr es else Inl ''EACCES'')"
| "readdir _ = Inl ''ENOTDIR''"

text \<open>
  Path resolution, recursive removal (\<^verbatim>\<open>rm -r\<close>), recursive directory creation
  (\<^verbatim>\<open>mkdir -p\<close>) and file creation on the tree. An entry name is resolved to the first
  entry of that name.
\<close>

fun lookup :: "fsnode \<Rightarrow> string list \<Rightarrow> fsnode option"
  and lookup_in :: "(string \<times> fsnode) list \<Rightarrow> string \<Rightarrow> string list \<Rightarrow> fsnode option" where
  "lookup t [] = Some t"
| "lookup (DirN r es) (s # ss) = lookup_in es s ss"
| "lookup FileN (s # ss) = None"
| "lookup OtherN (s # ss) = None"
| "lookup_in [] s ss = None"
| "lookup_in ((n, c) # es) s ss = (if n = s then lookup c ss else lookup_in es s ss)"

fun remove :: "fsnode \<Rightarrow> string list \<Rightarrow> fsnode"
  and remove_in :: "(string \<times> fsnode) list \<Rightarrow> string \<Rightarrow> string list \<Rightarrow> (string \<times> fsnode) list" where
  "remove t [] = t"
| "remove (DirN r es) (s # ss) = DirN r (remove_in es s ss)"
| "remove FileN (s # ss) = FileN"
| "remove OtherN (s # ss) = OtherN"
| "remove_in [] s ss = []"
| "remove_in ((n, c) # es) s ss =
     (if n = s then (if ss = [] then remove_in es s ss else (n, remove c ss) # es)
      else (n, c) # remove_in es s ss)"

fun fresh_dirs :: "string list \<Rightarrow> fsnode" where
  "fresh_dirs [] = DirN True []"
| "fresh_dirs (s # ss) = DirN True [(s, fresh_dirs ss)]"

fun mkdirp :: "fsnode \<Rightarrow> string list \<Rightarrow> string + fsnode"
  and mkdirp_in :: "(string \<times> fsnode) list \<Rightarrow> string \<Rightarrow> string list \<Rightarrow> string + (string \<times> fsnode) list" where
  "mkdirp (DirN r es) [] = Inr (DirN r es)"
| "mkdirp (DirN r es) (s # ss) =
     (case mkdirp_in es s ss of Inl e \<Rightarrow> Inl e | Inr es' \<Rightarrow> Inr (DirN r es'))"
| "mkdirp FileN ss = Inl (if ss = [] then ''EEXIST'' else ''ENOTDIR'')"
| "mkdirp OtherN ss = Inl (if ss = [] then ''EEXIST'' else ''ENOTDIR'')"
| "mkdirp_in [] s ss = Inr [(s, fresh_dirs ss)]"
| "mkdirp_in ((n, c) # es) s ss =
     (if n = s then (case mkdirp c ss of Inl e \<Rightarrow> Inl e | Inr c' \<Rightarrow> Inr ((n, c') # es))
      else (case mkdirp_in es s ss of Inl e \<Rightarrow> Inl e | Inr es' \<Rightarrow> Inr ((n, c) # es')))"

fun write_file :: "fsnode \<Rightarrow> string list \<Rightarrow> string + fsnode"
  and write_in :: "(string \<times> fsnode) list \<Rightarrow> string \<Rightarrow> string list \<Rightarrow> string + (string \<times> fsnode) list" where
  "write_file t [] = Inl ''EISDIR''"
| "write_file (DirN r es) (s # ss) =
     (case write_in es s ss of Inl e \<Rightarrow> Inl e | Inr es' \<Rightarrow> Inr (DirN r es'))"
| "write_file FileN (s # ss) = Inl ''ENOTDIR''"
| "write_file OtherN (s # ss) = Inl ''ENOTDIR''"
| "write_in [] s ss = (if ss = [] then Inr [(s, FileN)] else Inl ''ENOENT'')"
| "write_in ((n, c) # es) s ss =
     (if n = s
      then (if ss = [] then (if isDirectory c then Inl ''EISDIR'' else Inr ((n, FileN) # es))
            else (case write_file c ss of Inl e \<Rightarrow> Inl e | Inr c' \<Rightarrow> Inr ((n, c') # es)))
      else (case write_in es s ss of Inl e \<Rightarrow> Inl e | Inr es' \<Rightarrow> Inr ((n, c) # es')))"

section \<open>The world: file system, console and external collaborators\<close>

text \<open>
  What \<^verbatim>\<open>JSON.parse\<close> returned for the narration: an array, given by the strings its
  elements join to, or a value without a \<^verbatim>\<open>join\<close> method.
\<close>

datatype narration = Steps "string list" | NotArray

text \<open>
  The two prompts of the animation pipeline, identified by the values interpolated into
  them, and the observable events of a run: lines written with \<^verbatim>\<open>console.error\<close>
  (\<^verbatim>\<open>console.log\<close> output is not recorded), calls of the text generator, and child
  processes spawned (command, arguments, working directory).
\<close>

datatype prompt = NarrationPrompt jsval | ManimPrompt jsval narration

datatype event =
    ConsoleError string
  | Generated prompt
  | Spawned string "string list" "string option"

text \<open>The state a request handler reads and changes.\<close>

record world =
  tree :: fsnode
  trace :: "event list"

text \<open>
  A child process either fails to start or runs. When it fails to start, Node emits
  \<^verbatim>\<open>error\<close> with the system error and after it \<^verbatim>\<open>close\<close>, whose code is the negative
  error number (\<open>errno_code\<close>, as numbered by Linux), nothing having been captured from
  the child. When it runs, Node emits \<^verbatim>\<open>close\<close> with the exit code, \<^verbatim>\<open>null\<close> when a
  signal ended it, and the \<^verbatim>\<open>data\<close> listeners have accumulated its standard output and
  standard error by then. \<open>OnError\<close> stands for the first sequence of events and
  \<open>OnClose\<close> for the second. A start fails in this way when the command is not found or
  may not be executed, or when no process can be created; \<^verbatim>\<open>spawn\<close> itself does not
  throw. A process that ran may have changed the file system in any way.

  The \<^verbatim>\<open>close\<close> listener of a child that failed to start runs in the model as soon as
  its \<^verbatim>\<open>error\<close> listener has returned. Where the \<^verbatim>\<open>error\<close> listener rejects a promise,
  Node resumes the code awaiting that promise before it delivers \<^verbatim>\<open>close\<close>; that code
  and the \<^verbatim>\<open>close\<close> listeners of server.js act on different paths, so that only the order
  of the lines on the console depends on this.
\<close>

datatype errno = EACCES | EAGAIN | ENOENT

fun errno_code :: "errno \<Rightarrow> int" where
  "errno_code EACCES = - 13"
| "errno_code EAGAIN = - 11"
| "errno_code ENOENT = - 2"

datatype proc_run = FailedToStart string errno | Exited "int option" string string fsnode

datatype child_event = OnError string errno | OnClose "int option" string string

text \<open>
  The collaborators outside server.js: the text generator
  (\<^verbatim>\<open>model.generateContent\<close>, \<open>Inl\<close> when the call rejects), \<^verbatim>\<open>JSON.parse\<close> on the
  cleaned narration text, the identifier \<^verbatim>\<open>uuidv4()\<close> returns for this request, the paths
  the operating system refuses to remove, and the behaviour of child processes.
\<close>

record env =
  generateContent :: "prompt \<Rightarrow> string + string"
  json_parse :: "string \<Rightarrow> string + narration"
  uuidv4 :: string
  undeletable :: "string list"
  run :: "string \<Rightarrow> string list \<Rightarrow> string option \<Rightarrow> fsnode \<Rightarrow> proc_run"

text \<open>
  An HTTP response: status and the string fields of the JSON body. A handler returns
  \<open>Inr\<close> of the response it sent, or \<open>Inl\<close> of the exception that escaped it before any
  response was sent.
\<close>

record response =
  status :: nat
  body :: "(string \<times> string) list"

text \<open>Lines 21--23.\<close>

definition rendersDir :: string where "rendersDir = ''renders''"
definition videosDir :: string where "videosDir = ''videos''"
definition audioDir :: string where "audioDir = ''audio''"

text \<open>
  The operations of Node's \<^verbatim>\<open>fs\<close> and \<^verbatim>\<open>child_process\<close> modules that server.js
  uses. A function that can throw returns \<open>Inl\<close> of the error message and leaves the world
  as it was. \<open>rmSync\<close> is \<^verbatim>\<open>fs.rmSync(p, {recursive: true, force: true})\<close>, which does
  not raise on a missing path; \<open>mkdirSync\<close> is called with \<^verbatim>\<open>{recursive: true}\<close>.
\<close>

definition consoleError :: "string \<Rightarrow> world \<Rightarrow> world" where
  "consoleError msg w = w\<lparr>trace := trace w @ [ConsoleError msg]\<rparr>"

definition existsSync :: "world \<Rightarrow> string \<Rightarrow> bool" where
  "existsSync w p = (lookup (tree w) (segments p) \<noteq> None)"

definition rmSync :: "env \<Rightarrow> string \<Rightarrow> world \<Rightarrow> (string + unit) \<times> world" where
  "rmSync env p w =
     (if p \<in> set (undeletable env) \<or> segments p = [] then (Inl ''EPERM'', w)
      else (Inr (), w\<lparr>tree := remove (tree w) (segments p)\<rparr>))"

definition unlinkSync :: "env \<Rightarrow> string \<Rightarrow> world \<Rightarrow> (string + unit) \<times> world" where
  "unlinkSync env p w =
     (if p \<in> set (undeletable env) \<or> segments p = [] then (Inl ''EPERM'', w)
      else (case lookup (tree w) (segments p) of
              None \<Rightarrow> (Inl ''ENOENT'', w)
            | Some node \<Rightarrow>
                if isDirectory node then (Inl ''EISDIR'', w)
                else (Inr (), w\<lparr>tree := remove (tree w) (segments p)\<rparr>)))"

definition mkdirSync :: "string \<Rightarrow> world \<Rightarrow> (string + unit) \<times> world" where
  "mkdirSync p w =
     (case mkdirp (tree w) (segments p) of
        Inl e \<Rightarrow> (Inl e, w)
      | Inr t \<Rightarrow> (Inr (), w\<lparr>tree := t\<rparr>))"

definition writeFileSync :: "string \<Rightarrow> world \<Rightarrow> (string + unit) \<times> world" where
  "writeFileSync p w =
     (case write_file (tree w) (segments p) of
        Inl e \<Rightarrow> (Inl e, w)
      | Inr t \<Rightarrow> (Inr (), w\<lparr>tree := t\<rparr>))"

definition spawn :: "env \<Rightarrow> string \<Rightarrow> string list \<Rightarrow> string option \<Rightarrow> world \<Rightarrow> child_event \<times> world" where
  "spawn env cmd args cwd w =
     (let w1 = w\<lparr>trace := trace w @ [Spawned cmd args cwd]\<rparr> in
      case run env cmd args cwd (tree w) of
        FailedToStart m e \<Rightarrow> (OnError m e, w1)
      | Exited c out err t \<Rightarrow> (OnClose c out err, w1\<lparr>tree := t\<rparr>))"

section \<open>server.js\<close>

text \<open>\<^verbatim>\<open>deleteDirectory\<close>, lines 29--38: the whole body is inside \<^verbatim>\<open>try\<close>.\<close>

definition deleteDirectory :: "env \<Rightarrow> string \<Rightarrow> world \<Rightarrow> (string + unit) \<times> world" where
  "deleteDirectory env dirPath w =
     (case (if existsSync w dirPath then rmSync env dirPath w else (Inr (), w)) of
        (Inl error, w') \<Rightarrow>
          (Inr (), consoleError (''Error deleting directory '' @ dirPath @ '': '' @ error) w')
      | (Inr u, w') \<Rightarrow> (Inr (), w'))"

text \<open>
  \<^verbatim>\<open>findVideoFile\<close>, lines 41--67. \<open>findVideoFile_in\<close> is the body after the existence
  check, on the node found at \<open>dir\<close>; \<open>search_subdirs\<close> is the second loop. The first
  component of the result is the value returned, the second the lines the \<^verbatim>\<open>catch\<close>
  blocks wrote. \<open>truthy_path\<close> is the test \<^verbatim>\<open>if (result)\<close> on a string or null.
\<close>

fun is_mp4_file :: "string \<times> fsnode \<Rightarrow> bool" where
  "is_mp4_file (name, node) = (isFile node \<and> endsWith name ''.mp4'')"

definition truthy_path :: "string option \<Rightarrow> bool" where
  "truthy_path r = (case r of None \<Rightarrow> False | Some p \<Rightarrow> p \<noteq> [])"

lemma readdir_size:
  "readdir node = Inr items \<Longrightarrow> size_list (\<lambda>p. size (snd p)) items < size node"
  by (cases node) (auto split: if_splits simp: size_list_conv_sum_list intro!: le_imp_less_Suc sum_list_mono)

function findVideoFile_in :: "fsnode \<Rightarrow> string \<Rightarrow> string option \<times> event list"
  and search_subdirs :: "(string \<times> fsnode) list \<Rightarrow> string \<Rightarrow> string option \<times> event list" where
  "findVideoFile_in node dir =
     (case readdir node of
        Inl error \<Rightarrow> (None, [ConsoleError (''Error finding video file: '' @ error)])
      | Inr items \<Rightarrow>
          (case find is_mp4_file items of
             Some (name, f) \<Rightarrow> (Some (path_join dir name), [])
           | None \<Rightarrow> search_subdirs items dir))"
| "search_subdirs [] dir = (None, [])"
| "search_subdirs ((name, node) # items) dir =
     (if isDirectory node
      then (case findVideoFile_in node (path_join dir name) of
              (result, evs) \<Rightarrow>
                if truthy_path result then (result, evs)
                else (case search_subdirs items dir of (r, evs') \<Rightarrow> (r, evs @ evs')))
      else search_subdirs items dir)"
  by pat_completeness auto
termination
  by (relation "measure (\<lambda>x. case x of
          Inl (node, dir) \<Rightarrow> 2 * size node
        | Inr (items, dir) \<Rightarrow> 2 * size_list (\<lambda>p. size (snd p)) items + 1)")
     (auto dest: readdir_size)

definition findVideoFile :: "string \<Rightarrow> world \<Rightarrow> (string + string option) \<times> world" where
  "findVideoFile dir w =
     (case lookup (tree w) (segments dir) of
        None \<Rightarrow> (Inr None, w)
      | Some node \<Rightarrow>
          (case findVideoFile_in node dir of
             (result, evs) \<Rightarrow> (Inr result, w\<lparr>trace := trace w @ evs\<rparr>)))"

text \<open>
  \<^verbatim>\<open>generateNarrationSteps\<close> (lines 86--125) and \<^verbatim>\<open>generateManimScript\<close>
  (lines 293--396). A rejected promise is the result \<open>Inl\<close>.
\<close>

definition generateNarrationSteps :: "env \<Rightarrow> jsval \<Rightarrow> world \<Rightarrow> (string + narration) \<times> world" where
  "generateNarrationSteps env src w =
     (let w1 = w\<lparr>trace := trace w @ [Generated (NarrationPrompt src)]\<rparr> in
      case generateContent env (NarrationPrompt src) of
        Inl error \<Rightarrow> (Inl error, consoleError (''Error generating narration steps: '' @ error) w1)
      | Inr text \<Rightarrow>
          (case json_parse env (cleanJsonResponse text) of
             Inl error \<Rightarrow>
               (Inl error, consoleError (''Error generating narration steps: '' @ error) w1)
           | Inr steps \<Rightarrow> (Inr steps, w1)))"

definition generateManimScript ::
  "env \<Rightarrow> jsval \<Rightarrow> narration \<Rightarrow> world \<Rightarrow> (string + string \<times> string) \<times> world" where
  "generateManimScript env src narrationSteps w =
     (let scriptId = uuidv4 env;
          w1 = w\<lparr>trace := trace w @ [Generated (ManimPrompt src narrationSteps)]\<rparr> in
      case generateContent env (ManimPrompt src narrationSteps) of
        Inl error \<Rightarrow> (Inl error, consoleError (''Error generating Manim script: '' @ error) w1)
      | Inr text \<Rightarrow> (Inr (scriptId, cleanPythonResponse text), w1))"

text \<open>
  \<^verbatim>\<open>generateAudio\<close>, lines 128--207. The promise is returned without \<^verbatim>\<open>await\<close>, so
  the outer \<^verbatim>\<open>catch\<close> sees only what is thrown before the child is spawned.
  \<open>pythonProcess_on_close\<close> is the \<^verbatim>\<open>close\<close> listener (lines 182--197) with the value
  it settles the promise with. A promise keeps the first value it is settled with: after
  the \<^verbatim>\<open>error\<close> listener (lines 199--201) has rejected it, the \<^verbatim>\<open>close\<close> listener still
  runs, and its \<^verbatim>\<open>reject\<close> has no effect.
\<close>

fun join_steps :: "narration \<Rightarrow> string + string" where
  "join_steps (Steps lines) = Inr (join_with ''. '' lines)"
| "join_steps NotArray = Inl ''narrationSteps.join is not a function''"

definition pythonProcess_on_close ::
  "env \<Rightarrow> string \<Rightarrow> string \<Rightarrow> int option \<Rightarrow> string \<Rightarrow> world \<Rightarrow> (string + string) \<times> world" where
  "pythonProcess_on_close env scriptPath audioFilePath c errorOutput w =
     (let w1 = (case unlinkSync env scriptPath w of
                  (Inl err, w') \<Rightarrow> consoleError (''Error cleaning up script file: '' @ err) w'
                | (Inr u, w') \<Rightarrow> w') in
      if c = Some 0 \<and> existsSync w1 audioFilePath
      then (Inr audioFilePath, w1)
      else (Inl (''Audio generation failed: '' @ errorOutput),
            consoleError (''Audio generation failed: '' @ errorOutput) w1))"

definition generateAudio :: "env \<Rightarrow> narration \<Rightarrow> string \<Rightarrow> world \<Rightarrow> (string + string) \<times> world" where
  "generateAudio env narrationSteps audioId w =
     (let audioFilePath = path_join audioDir (audioId @ ''.wav'') in
      case join_steps narrationSteps of
        Inl error \<Rightarrow> (Inl error, consoleError (''Error in generateAudio: '' @ error) w)
      | Inr fullNarration \<Rightarrow>
          (let scriptPath = path_join audioDir (audioId @ ''_script.py'') in
           case writeFileSync scriptPath w of
             (Inl error, w1) \<Rightarrow> (Inl error, consoleError (''Error in generateAudio: '' @ error) w1)
           | (Inr u, w1) \<Rightarrow>
               (case spawn env ''python'' [scriptPath] None w1 of
                  (OnError error e, w2) \<Rightarrow>
                    (case pythonProcess_on_close env scriptPath audioFilePath
                            (Some (errno_code e)) [] w2 of
                       (late, w3) \<Rightarrow> (Inl (''Failed to start audio generation: '' @ error), w3))
                | (OnClose c output errorOutput, w2) \<Rightarrow>
                    pythonProcess_on_close env scriptPath audioFilePath c errorOutput w2)))"

text \<open>
  \<^verbatim>\<open>combineVideoAndAudio\<close>, lines 210--247, with \<open>ffmpeg_on_close\<close> the \<^verbatim>\<open>close\<close>
  listener (lines 233--241).
\<close>

definition ffmpeg_args :: "string \<Rightarrow> string \<Rightarrow> string \<Rightarrow> string list" where
  "ffmpeg_args videoPath audioPath outputPath =
     [''-i'', videoPath, ''-i'', audioPath, ''-c:v'', ''copy'', ''-c:a'', ''aac'',
      ''-shortest'', ''-y'', outputPath]"

definition ffmpeg_on_close :: "string \<Rightarrow> int option \<Rightarrow> string \<Rightarrow> world \<Rightarrow> (string + string) \<times> world" where
  "ffmpeg_on_close outputPath c errorOutput w =
     (if c = Some 0 then (Inr outputPath, w)
      else (Inl (''FFmpeg failed with code '' @ show_code c @ '': '' @ errorOutput),
            consoleError (''FFmpeg failed: '' @ errorOutput) w))"

definition combineVideoAndAudio ::
  "env \<Rightarrow> string \<Rightarrow> string \<Rightarrow> string \<Rightarrow> world \<Rightarrow> (string + string) \<times> world" where
  "combineVideoAndAudio env videoPath audioPath outputPath w =
     (case spawn env ''ffmpeg'' (ffmpeg_args videoPath audioPath outputPath) None w of
        (OnError error e, w1) \<Rightarrow>
          (case ffmpeg_on_close outputPath (Some (errno_code e)) [] w1 of
             (late, w2) \<Rightarrow> (Inl (''Failed to start FFmpeg: '' @ error), w2))
      | (OnClose c output errorOutput, w1) \<Rightarrow> ffmpeg_on_close outputPath c errorOutput w1)"

text \<open>
  The handler of \<^verbatim>\<open>POST /api/getAnimation\<close>, lines 421--583. \<open>unlinkAudio\<close> is the
  statement \<^verbatim>\<open>if (audioFilePath && fs.existsSync(audioFilePath)) fs.unlinkSync(audioFilePath)\<close>
  and \<open>cleanup\<close> the two clean-up statements that every failure path repeats, on the
  values the variables \<^verbatim>\<open>renderDir\<close> and \<^verbatim>\<open>audioFilePath\<close> hold at that point.
  \<open>getAnimation_catch\<close> is the outer \<^verbatim>\<open>catch\<close> block (lines 571--582),
  \<open>manim_on_error\<close> the \<^verbatim>\<open>error\<close> listener of the renderer (lines 558--569),
  \<open>manim_on_close\<close> its \<^verbatim>\<open>close\<close> listener (lines 481--556) with \<open>manim_close_try\<close> the
  \<^verbatim>\<open>try\<close> block inside it, \<open>render_job\<close> lines 446--569 and \<open>getAnimation\<close> the whole
  handler.

  When the renderer fails to start, its \<^verbatim>\<open>error\<close> listener answers the request. An
  exception thrown by that listener is caught nowhere, and no \<^verbatim>\<open>close\<close> event follows it.
  Otherwise the \<^verbatim>\<open>close\<close> listener runs as well, with the error number as its code: it
  logs, cleans up a second time and calls \<^verbatim>\<open>res.status(500).json\<close> again, which throws
  because the response has gone out; the call is outside the \<^verbatim>\<open>try\<close> block, and the
  rejection of the \<^verbatim>\<open>async\<close> listener is handled nowhere. The response of the
  \<^verbatim>\<open>error\<close> listener stands.
\<close>

definition unlinkAudio :: "env \<Rightarrow> string option \<Rightarrow> world \<Rightarrow> (string + unit) \<times> world" where
  "unlinkAudio env audioFilePath w =
     (case audioFilePath of
        None \<Rightarrow> (Inr (), w)
      | Some p \<Rightarrow> if p \<noteq> [] \<and> existsSync w p then unlinkSync env p w else (Inr (), w))"

definition cleanup ::
  "env \<Rightarrow> string option \<Rightarrow> string option \<Rightarrow> world \<Rightarrow> (string + unit) \<times> world" where
  "cleanup env renderDir audioFilePath w =
     (case (case renderDir of
              None \<Rightarrow> (Inr (), w)
            | Some d \<Rightarrow> if d \<noteq> [] then deleteDirectory env d w else (Inr (), w)) of
        (Inl error, w1) \<Rightarrow> (Inl error, w1)
      | (Inr u, w1) \<Rightarrow> unlinkAudio env audioFilePath w1)"

definition getAnimation_catch ::
  "env \<Rightarrow> string option \<Rightarrow> string option \<Rightarrow> string \<Rightarrow> world \<Rightarrow> (string + response) \<times> world" where
  "getAnimation_catch env renderDir audioFilePath error w =
     (case cleanup env renderDir audioFilePath (consoleError (''Error in /api/getAnimation: '' @ error) w) of
        (Inl e, w1) \<Rightarrow> (Inl e, w1)
      | (Inr u, w1) \<Rightarrow>
          (Inr \<lparr>status = 500,
                body = [(''error'', ''Failed to generate animation with audio''),
                        (''details'', error)]\<rparr>, w1))"

definition manim_on_error ::
  "env \<Rightarrow> string \<Rightarrow> string \<Rightarrow> string \<Rightarrow> world \<Rightarrow> (string + response) \<times> world" where
  "manim_on_error env renderDir audioFilePath error w =
     (case cleanup env (Some renderDir) (Some audioFilePath)
             (consoleError (''Failed to start Manim process: '' @ error) w) of
        (Inl e, w1) \<Rightarrow> (Inl e, w1)
      | (Inr u, w1) \<Rightarrow>
          (Inr \<lparr>status = 500,
                body = [(''error'', ''Failed to start Manim process''), (''details'', error)]\<rparr>,
           w1))"

definition manim_close_try ::
  "env \<Rightarrow> string \<Rightarrow> string \<Rightarrow> string \<Rightarrow> string \<Rightarrow> string \<Rightarrow> world \<Rightarrow>
   (string + response) \<times> world" where
  "manim_close_try env renderId renderDir audioFilePath output errorOutput w =
     (case findVideoFile renderDir w of
        (Inl e, w1) \<Rightarrow> (Inl e, w1)
      | (Inr videoPath, w1) \<Rightarrow>
          if \<not> truthy_path videoPath
          then (case cleanup env (Some renderDir) (Some audioFilePath)
                       (consoleError (''No video file found in render directory: '' @ renderDir) w1) of
                  (Inl e, w2) \<Rightarrow> (Inl e, w2)
                | (Inr u, w2) \<Rightarrow>
                    (Inr \<lparr>status = 500,
                          body = [(''error'', ''No video file generated''),
                                  (''output'', output), (''errorOutput'', errorOutput)]\<rparr>, w2))
          else
            (let publicDir = path_join videosDir renderId in
             case mkdirSync publicDir w1 of
               (Inl e, w2) \<Rightarrow> (Inl e, w2)
             | (Inr u, w2) \<Rightarrow>
                 (let videoFileName = basename (the videoPath);
                      baseFileName = replace_first ''.mp4'' [] videoFileName;
                      finalVideoPath = path_join publicDir (baseFileName @ ''_with_audio.mp4'') in
                  case combineVideoAndAudio env (the videoPath) audioFilePath finalVideoPath w2 of
                    (Inl e, w3) \<Rightarrow> (Inl e, w3)
                  | (Inr out, w3) \<Rightarrow>
                      (let videoUrl = ''/videos/'' @ renderId @ ''/'' @ baseFileName @ ''_with_audio.mp4'' in
                       case deleteDirectory env renderDir w3 of
                         (Inl e, w4) \<Rightarrow> (Inl e, w4)
                       | (Inr u', w4) \<Rightarrow>
                           (case unlinkAudio env (Some audioFilePath) w4 of
                              (Inl e, w5) \<Rightarrow> (Inl e, w5)
                            | (Inr u'', w5) \<Rightarrow>
                                (Inr \<lparr>status = 200, body = [(''videoUrl'', videoUrl)]\<rparr>, w5))))))"

definition manim_on_close ::
  "env \<Rightarrow> string \<Rightarrow> string \<Rightarrow> string \<Rightarrow> int option \<Rightarrow> string \<Rightarrow> string \<Rightarrow> world \<Rightarrow>
   (string + response) \<times> world" where
  "manim_on_close env renderId renderDir audioFilePath c output errorOutput w =
     (if c \<noteq> Some 0
      then (case cleanup env (Some renderDir) (Some audioFilePath)
                   (consoleError (''Manim failed with error: '' @ errorOutput)
                      (consoleError (''Manim failed with output: '' @ output) w)) of
              (Inl e, w1) \<Rightarrow> (Inl e, w1)
            | (Inr u, w1) \<Rightarrow>
                (Inr \<lparr>status = 500,
                      body = [(''error'', ''Manim failed with code '' @ show_code c),
                              (''output'', output), (''errorOutput'', errorOutput)]\<rparr>, w1))
      else (case manim_close_try env renderId renderDir audioFilePath output errorOutput w of
              (Inr resp, w1) \<Rightarrow> (Inr resp, w1)
            | (Inl error, w1) \<Rightarrow>
                (case cleanup env (Some renderDir) (Some audioFilePath)
                        (consoleError (''Error processing video/audio combination: '' @ error) w1) of
                   (Inl e, w2) \<Rightarrow> (Inl e, w2)
                 | (Inr u, w2) \<Rightarrow>
                     (Inr \<lparr>status = 500,
                           body = [(''error'', ''Error processing generated video with audio''),
                                   (''details'', error),
                                   (''output'', output), (''errorOutput'', errorOutput)]\<rparr>, w2))))"

definition render_job ::
  "env \<Rightarrow> narration \<Rightarrow> string \<Rightarrow> world \<Rightarrow> (string + response) \<times> world" where
  "render_job env narrationSteps renderId w =
     (let renderDir = path_join rendersDir renderId in
      case mkdirSync renderDir w of
        (Inl error, w1) \<Rightarrow> getAnimation_catch env (Some renderDir) None error w1
      | (Inr u, w1) \<Rightarrow>
          (let scriptPath = path_join renderDir ''animation.py'' in
           case writeFileSync scriptPath w1 of
             (Inl error, w2) \<Rightarrow> getAnimation_catch env (Some renderDir) None error w2
           | (Inr u', w2) \<Rightarrow>
               (case generateAudio env narrationSteps renderId w2 of
                  (Inl error, w3) \<Rightarrow> getAnimation_catch env (Some renderDir) None error w3
                | (Inr audioFilePath, w3) \<Rightarrow>
                    (case spawn env ''python'' [''-m'', ''manim'', ''animation.py'', ''-ql'']
                            (Some renderDir) w3 of
                       (OnError error e, w4) \<Rightarrow>
                         (case manim_on_error env renderDir audioFilePath error w4 of
                            (Inl uncaught, w5) \<Rightarrow> (Inl uncaught, w5)
                          | (Inr resp, w5) \<Rightarrow>
                              (case manim_on_close env renderId renderDir audioFilePath
                                      (Some (errno_code e)) [] [] w5 of
                                 (again, w6) \<Rightarrow> (Inr resp, w6)))
                     | (OnClose c output errorOutput, w4) \<Rightarrow>
                         manim_on_close env renderId renderDir audioFilePath c output errorOutput w4))))"

definition getAnimation :: "env \<Rightarrow> approach option \<Rightarrow> world \<Rightarrow> (string + response) \<times> world" where
  "getAnimation env req w =
     (case req of
        None \<Rightarrow>
          (Inr \<lparr>status = 400, body = [(''error'', ''Approach details are required'')]\<rparr>, w)
      | Some approach \<Rightarrow>
          (case code approach of
             None \<Rightarrow>
               getAnimation_catch env None None
                 ''Cannot read properties of undefined (reading javaCode)'' w
           | Some c \<Rightarrow>
               (let src = selectCode c in
                case generateNarrationSteps env src w of
                  (Inl error, w1) \<Rightarrow> getAnimation_catch env None None error w1
                | (Inr narrationSteps, w1) \<Rightarrow>
                    (case generateManimScript env src narrationSteps w1 of
                       (Inl error, w2) \<Rightarrow> getAnimation_catch env None None error w2
                     | (Inr (scriptId, scriptContent), w2) \<Rightarrow>
                         render_job env narrationSteps scriptId w2))))"

section \<open>Observations on a run, and sample inputs\<close>

text \<open>
  \<open>has_mp4\<close> says that a tree holds a regular file whose name ends in \<^verbatim>\<open>.mp4\<close>, at any
  depth. \<open>spawns\<close> and \<open>prompts\<close> read off a trace the child processes that were spawned
  and the prompts that were sent to the text generator, in order. \<open>manim_spawn\<close> is the
  renderer's invocation for a job, \<open>unlink_script\<close> the guarded removal of the speech
  driver script in the \<^verbatim>\<open>close\<close> handler of \<open>generateAudio\<close>, and \<open>mentions\<close> says that
  some field of a response body contains a given text.
\<close>

fun has_mp4 :: "fsnode \<Rightarrow> bool" and has_mp4_in :: "(string \<times> fsnode) list \<Rightarrow> bool" where
  "has_mp4 (DirN r es) = has_mp4_in es"
| "has_mp4 FileN = False"
| "has_mp4 OtherN = False"
| "has_mp4_in [] = False"
| "has_mp4_in ((n, c) # es) = (is_mp4_file (n, c) \<or> has_mp4 c \<or> has_mp4_in es)"

fun spawns :: "event list \<Rightarrow> (string \<times> string list \<times> string option) list" where
  "spawns [] = []"
| "spawns (Spawned cmd args cwd # evs) = (cmd, args, cwd) # spawns evs"
| "spawns (ev # evs) = spawns evs"

fun prompts :: "event list \<Rightarrow> prompt list" where
  "prompts [] = []"
| "prompts (Generated p # evs) = p # prompts evs"
| "prompts (ev # evs) = prompts evs"

definition manim_spawn :: "string \<Rightarrow> string \<times> string list \<times> string option" where
  "manim_spawn renderId =
     (''python'', [''-m'', ''manim'', ''animation.py'', ''-ql''], Some (path_join rendersDir renderId))"

definition unlink_script :: "env \<Rightarrow> string \<Rightarrow> world \<Rightarrow> world" where
  "unlink_script env scriptPath w =
     (case unlinkSync env scriptPath w of
        (Inl err, w') \<Rightarrow> consoleError (''Error cleaning up script file: '' @ err) w'
      | (Inr u, w') \<Rightarrow> w')"


text \<open>
  The two directory trees of the artifact-location example: \<^verbatim>\<open>a/video.mp4\<close> beside
  \<^verbatim>\<open>a/b/out.mp4\<close>, with the file listed before the subdirectory and after it.
\<close>

definition tree_video_first :: fsnode where
  "tree_video_first =
     DirN True [(''a'', DirN True [(''video.mp4'', FileN),
                                  (''b'', DirN True [(''out.mp4'', FileN)])])]"

definition tree_subdir_first :: fsnode where
  "tree_subdir_first =
     DirN True [(''a'', DirN True [(''b'', DirN True [(''out.mp4'', FileN)]),
                                  (''video.mp4'', FileN)])]"

text \<open>
  A family of concrete collaborators for one job with identifier \<^verbatim>\<open>j1\<close>. The text
  generator and the parser always succeed. \<open>sample_run\<close> gives the three child processes,
  told apart as server.js starts them (\<^verbatim>\<open>ffmpeg\<close>; \<^verbatim>\<open>python\<close> without a working
  directory for speech; \<^verbatim>\<open>python\<close> with one for the renderer): each exits with the given
  code, or fails to start with \<^verbatim>\<open>ENOENT\<close> when the code is negative; the speech process writes
  \<^verbatim>\<open>audio/j1.wav\<close>, the renderer writes the named video file below the job's directory,
  and the muxer writes its output file when it exits with code 0. \<open>sample_world\<close> is the
  state after server start: the three root directories exist and are empty.
  \<open>rendered_world\<close> is a state in which audio and video of the job exist, and
  \<open>speech_spawn_tree\<close> the tree in which the speech process of the job starts.
\<close>

definition put_file :: "string list \<Rightarrow> string \<Rightarrow> fsnode \<Rightarrow> fsnode" where
  "put_file dir name t =
     (case mkdirp t dir of
        Inl e \<Rightarrow> t
      | Inr t1 \<Rightarrow> (case write_file t1 (dir @ [name]) of Inl e \<Rightarrow> t1 | Inr t2 \<Rightarrow> t2))"

definition sample_run ::
  "int \<Rightarrow> int \<Rightarrow> string \<Rightarrow> int \<Rightarrow> string \<Rightarrow> string list \<Rightarrow> string option \<Rightarrow> fsnode \<Rightarrow> proc_run" where
  "sample_run speech_exit render_exit video_name mux_exit cmd args cwd t =
     (if cmd = ''ffmpeg''
      then (if mux_exit < 0 then FailedToStart ''spawn ffmpeg ENOENT'' ENOENT
            else Exited (Some mux_exit) ''mux-out'' ''mux-err''
                   (if mux_exit = 0 then put_file [''videos'', ''j1''] (basename (last args)) t
                    else t))
      else if cwd = None
      then (if speech_exit < 0 then FailedToStart ''spawn python ENOENT'' ENOENT
            else Exited (Some speech_exit) ''tts-out'' ''tts-err'' (put_file [''audio''] ''j1.wav'' t))
      else (if render_exit < 0 then FailedToStart ''spawn python ENOENT'' ENOENT
            else Exited (Some render_exit) ''manim-out'' ''manim-err''
                   (if video_name = [] then t
                    else put_file [''renders'', ''j1'', ''media'', ''videos'', ''animation'', ''480p15'']
                           video_name t)))"

definition sample_env :: "string list \<Rightarrow> int \<Rightarrow> int \<Rightarrow> string \<Rightarrow> int \<Rightarrow> env" where
  "sample_env locked speech_exit render_exit video_name mux_exit =
     \<lparr>generateContent = (\<lambda>p. Inr ''text''),
      json_parse = (\<lambda>s. Inr (Steps [''one'', ''two''])),
      uuidv4 = ''j1'',
      undeletable = locked,
      run = sample_run speech_exit render_exit video_name mux_exit\<rparr>"


definition sample_world :: world where
  "sample_world =
     \<lparr>tree = DirN True [(''renders'', DirN True []), (''videos'', DirN True []),
                        (''audio'', DirN True [])],
      trace = []\<rparr>"

definition sample_request :: "approach option" where
  "sample_request =
     Some \<lparr>title = ''Bubble Sort'',
           code = Some \<lparr>javaCode = JStr ''class Sort {}'', cppCode = JUndefined,
                        pythonCode = JUndefined, jsCode = JUndefined\<rparr>\<rparr>"

definition rendered_world :: world where
  "rendered_world =
     \<lparr>tree =
        DirN True
         [(''renders'', DirN True [(''j1'', DirN True [(''animation.py'', FileN),
                                                      (''AlgorithmDemo.mp4'', FileN)])]),
          (''videos'', DirN True []),
          (''audio'', DirN True [(''j1.wav'', FileN)])],
      trace = []\<rparr>"


section \<open>Auxiliary lemmas\<close>

subsection \<open>Removal leaves nothing behind\<close>

lemma lookup_remove_self:
  "p \<noteq> [] \<Longrightarrow> lookup (remove t p) p = None"
  "lookup_in (remove_in es s ss) s ss = None"
  by (induction t p and es s ss rule: remove_remove_in.induct) auto

lemma lookup_in_remove_all: "lookup_in (remove_in es s []) s ss' = None"
  by (induction es) auto

lemma lookup_remove_absent:
  "lookup t q = None \<Longrightarrow> lookup (remove t p) q = None"
  "lookup_in es s' ss' = None \<Longrightarrow> lookup_in (remove_in es s ss) s' ss' = None"
proof (induction t p and es s ss arbitrary: q and s' ss' rule: remove_remove_in.induct)
  case (2 r es s ss)
  then show ?case by (cases q) auto
next
  case (3 s ss)
  then show ?case by (cases q) auto
next
  case (4 s ss)
  then show ?case by (cases q) auto
next
  case (6 n c es s ss)
  show ?case
  proof (cases "n = s")
    case True
    show ?thesis
    proof (cases "ss = []")
      case True
      with \<open>n = s\<close> 6 show ?thesis
        by (cases "s' = s") (auto simp: lookup_in_remove_all)
    next
      case False
      with \<open>n = s\<close> 6 show ?thesis by (auto split: if_splits)
    qed
  next
    case False
    with 6 show ?thesis by (auto split: if_splits)
  qed
qed auto

lemma existsSync_consoleError [simp]: "existsSync (consoleError m w) p = existsSync w p"
  by (simp add: existsSync_def consoleError_def)

lemma existsSync_trace_update [simp]: "existsSync (w\<lparr>trace := t\<rparr>) p = existsSync w p"
  by (simp add: existsSync_def)

lemma rmSync_ok_absent:
  "rmSync env p w = (Inr u, w') \<Longrightarrow> \<not> existsSync w' p"
  by (auto simp: rmSync_def existsSync_def lookup_remove_self split: if_splits)

lemma rmSync_keeps_absent:
  "rmSync env p w = (r, w') \<Longrightarrow> \<not> existsSync w q \<Longrightarrow> \<not> existsSync w' q"
  by (auto simp: rmSync_def existsSync_def lookup_remove_absent split: if_splits)

lemma unlinkSync_ok_absent:
  "unlinkSync env p w = (Inr u, w') \<Longrightarrow> \<not> existsSync w' p"
  by (auto simp: unlinkSync_def existsSync_def lookup_remove_self split: if_splits option.splits)

lemma unlinkSync_keeps_absent:
  "unlinkSync env p w = (r, w') \<Longrightarrow> \<not> existsSync w q \<Longrightarrow> \<not> existsSync w' q"
  by (auto simp: unlinkSync_def existsSync_def lookup_remove_absent split: if_splits option.splits)

lemma deleteDirectory_never_raises: "\<exists>w'. deleteDirectory env d w = (Inr (), w')"
  by (auto simp: deleteDirectory_def split: prod.splits sum.splits)

lemma deleteDirectory_absent:
  assumes "deleteDirectory env d w = (r, w')" "d \<notin> set (undeletable env)" "segments d \<noteq> []"
  shows "\<not> existsSync w' d"
  using assms
  by (auto simp: deleteDirectory_def rmSync_def existsSync_def lookup_remove_self consoleError_def
           split: if_splits)

lemma deleteDirectory_keeps_absent:
  "deleteDirectory env d w = (r, w') \<Longrightarrow> \<not> existsSync w q \<Longrightarrow> \<not> existsSync w' q"
  by (auto simp: deleteDirectory_def split: if_splits prod.splits sum.splits dest: rmSync_keeps_absent)

lemma unlinkAudio_absent:
  "unlinkAudio env (Some a) w = (Inr u, w') \<Longrightarrow> a \<noteq> [] \<Longrightarrow> \<not> existsSync w' a"
  by (auto simp: unlinkAudio_def split: if_splits dest: unlinkSync_ok_absent)

lemma unlinkAudio_keeps_absent:
  "unlinkAudio env a w = (r, w') \<Longrightarrow> \<not> existsSync w q \<Longrightarrow> \<not> existsSync w' q"
  by (auto simp: unlinkAudio_def split: if_splits option.splits dest: unlinkSync_keeps_absent)

lemma cleanup_absent:
  assumes "cleanup env (Some d) a w = (Inr u, w')" "d \<notin> set (undeletable env)" "segments d \<noteq> []"
  shows "\<not> existsSync w' d"
proof -
  have dne: "d \<noteq> []" using assms(3) by (auto simp: segments_def)
  obtain w1 where w1: "deleteDirectory env d w = (Inr (), w1)"
    using deleteDirectory_never_raises by blast
  with assms(1) dne have "unlinkAudio env a w1 = (Inr u, w')" by (simp add: cleanup_def)
  moreover have "\<not> existsSync w1 d" using deleteDirectory_absent [OF w1 assms(2,3)] .
  ultimately show ?thesis by (rule unlinkAudio_keeps_absent)
qed

lemma cleanup_audio_absent:
  assumes "cleanup env rd (Some a) w = (Inr u, w')" "a \<noteq> []"
  shows "\<not> existsSync w' a"
  using assms
  by (auto simp: cleanup_def split: option.splits if_splits prod.splits sum.splits
           dest: unlinkAudio_absent)

lemma cleanup_keeps_absent:
  assumes "cleanup env rd a w = (r, w')" "\<not> existsSync w q"
  shows "\<not> existsSync w' q"
proof -
  obtain r1 w1 where d: "(case rd of None \<Rightarrow> (Inr (), w)
            | Some d \<Rightarrow> if d \<noteq> [] then deleteDirectory env d w else (Inr (), w)) = (r1, w1)"
    by (cases "(case rd of None \<Rightarrow> (Inr (), w)
            | Some d \<Rightarrow> if d \<noteq> [] then deleteDirectory env d w else (Inr (), w))")
  with assms(2) have a1: "\<not> existsSync w1 q"
    by (auto split: option.splits if_splits dest: deleteDirectory_keeps_absent)
  show ?thesis
  proof (cases r1)
    case (Inl e)
    with assms(1) d a1 show ?thesis by (simp add: cleanup_def)
  next
    case (Inr u)
    with assms(1) d have "unlinkAudio env a w1 = (r, w')" by (simp add: cleanup_def)
    from unlinkAudio_keeps_absent [OF this a1] show ?thesis .
  qed
qed

lemma errno_code_negative [simp]: "errno_code e < 0" "errno_code e \<noteq> 0"
  by (cases e; simp)+

lemma splitOn_nonempty [simp]: "splitOn c s \<noteq> []"
  by (induction s) (auto split: list.splits)

lemma segments_renderDir: "segments (path_join rendersDir renderId) \<noteq> []"
  by (simp add: path_join_def rendersDir_def segments_def split: list.splits)

lemma generateNarrationSteps_tree:
  "generateNarrationSteps env src w = (r, w') \<Longrightarrow> tree w' = tree w"
  by (auto simp: generateNarrationSteps_def consoleError_def Let_def split: sum.splits)

lemma generateManimScript_tree:
  "generateManimScript env src steps w = (r, w') \<Longrightarrow> tree w' = tree w"
  by (auto simp: generateManimScript_def consoleError_def Let_def split: sum.splits)

lemma generateManimScript_id:
  "generateManimScript env src steps w = (Inr (scriptId, content), w') \<Longrightarrow> scriptId = uuidv4 env"
  by (auto simp: generateManimScript_def Let_def split: sum.splits)

lemma existsSync_tree_cong: "tree w' = tree w \<Longrightarrow> existsSync w' p = existsSync w p"
  by (simp add: existsSync_def)

lemma catch_none_tree:
  "getAnimation_catch env None None e w = (r, w') \<Longrightarrow> tree w' = tree w"
  by (auto simp: getAnimation_catch_def cleanup_def unlinkAudio_def consoleError_def)

subsection \<open>What the exit paths of the handler leave behind\<close>

lemma catch_absent:
  assumes "getAnimation_catch env (Some d) a e w = (Inr resp, w')"
    and "d \<notin> set (undeletable env)" "segments d \<noteq> []"
  shows "\<not> existsSync w' d"
  using assms
  by (auto simp: getAnimation_catch_def split: prod.splits sum.splits dest: cleanup_absent)

lemma manim_on_error_absent:
  assumes "manim_on_error env d a e w = (Inr resp, w')"
  shows "(d \<notin> set (undeletable env) \<and> segments d \<noteq> [] \<longrightarrow> \<not> existsSync w' d)
       \<and> (a \<noteq> [] \<longrightarrow> \<not> existsSync w' a)"
  using assms
  by (auto simp: manim_on_error_def split: prod.splits sum.splits
           dest: cleanup_absent cleanup_audio_absent)

lemma manim_close_try_absent:
  assumes "manim_close_try env renderId d a out err w = (Inr resp, w')"
  shows "(d \<notin> set (undeletable env) \<and> segments d \<noteq> [] \<longrightarrow> \<not> existsSync w' d)
       \<and> (a \<noteq> [] \<longrightarrow> \<not> existsSync w' a)"
proof (cases "findVideoFile d w")
  case (Pair r w1)
  show ?thesis
  proof (cases r)
    case (Inl e)
    with Pair assms show ?thesis by (simp add: manim_close_try_def)
  next
    case (Inr videoPath)
    show ?thesis
    proof (cases "truthy_path videoPath")
      case False
      with Pair Inr assms show ?thesis
        by (auto simp: manim_close_try_def split: prod.splits sum.splits
                 dest: cleanup_absent cleanup_audio_absent)
    next
      case True
      with Pair Inr assms obtain w3 w4 u u' where
        del: "deleteDirectory env d w3 = (Inr u, w4)" and
        unl: "unlinkAudio env (Some a) w4 = (Inr u', w')"
        by (auto simp: manim_close_try_def Let_def split: prod.splits sum.splits)
      show ?thesis
        using deleteDirectory_absent [OF del] unlinkAudio_keeps_absent [OF unl]
              unlinkAudio_absent [OF unl]
        by blast
    qed
  qed
qed

lemma manim_on_close_absent:
  assumes "manim_on_close env renderId d a c out err w = (Inr resp, w')"
  shows "(d \<notin> set (undeletable env) \<and> segments d \<noteq> [] \<longrightarrow> \<not> existsSync w' d)
       \<and> (a \<noteq> [] \<longrightarrow> \<not> existsSync w' a)"
proof (cases "c \<noteq> Some 0")
  case True
  with assms show ?thesis
    by (auto simp: manim_on_close_def split: prod.splits sum.splits
             dest: cleanup_absent cleanup_audio_absent)
next
  case False
  show ?thesis
  proof (cases "manim_close_try env renderId d a out err w")
    case (Pair r w1)
    show ?thesis
    proof (cases r)
      case (Inr resp')
      with Pair False assms have "manim_close_try env renderId d a out err w = (Inr resp, w')"
        by (simp add: manim_on_close_def)
      then show ?thesis by (rule manim_close_try_absent)
    next
      case (Inl e)
      with Pair False assms show ?thesis
        by (auto simp: manim_on_close_def split: prod.splits sum.splits
                 dest: cleanup_absent cleanup_audio_absent)
    qed
  qed
qed

lemma manim_on_close_failed_keeps_absent:
  assumes "manim_on_close env renderId d a c out err w = (r, w')" "c \<noteq> Some 0"
    and "\<not> existsSync w q"
  shows "\<not> existsSync w' q"
proof -
  from assms(1,2) obtain r1 where
    "cleanup env (Some d) (Some a)
       (consoleError (''Manim failed with error: '' @ err)
          (consoleError (''Manim failed with output: '' @ out) w)) = (r1, w')"
    by (auto simp: manim_on_close_def split: prod.splits sum.splits)
  from cleanup_keeps_absent [OF this] assms(3) show ?thesis by simp
qed

lemma manim_failed_start_absent:
  assumes "manim_on_error env d a m w = (Inr resp, w1)"
    and "manim_on_close env renderId d a (Some (errno_code e)) [] [] w1 = (r, w')"
  shows "(d \<notin> set (undeletable env) \<and> segments d \<noteq> [] \<longrightarrow> \<not> existsSync w' d)
       \<and> (a \<noteq> [] \<longrightarrow> \<not> existsSync w' a)"
  using manim_on_error_absent [OF assms(1)]
        manim_on_close_failed_keeps_absent [OF assms(2)]
  by simp

lemma render_job_cases:
  assumes "render_job env steps renderId w = (Inr resp, w')"
  shows "(\<exists>a e w1. getAnimation_catch env (Some (path_join rendersDir renderId)) a e w1 = (Inr resp, w'))
       \<or> (\<exists>a c out err w1.
             manim_on_close env renderId (path_join rendersDir renderId) a c out err w1 = (Inr resp, w'))
       \<or> (\<exists>a m w1 w2 e r.
             manim_on_error env (path_join rendersDir renderId) a m w1 = (Inr resp, w2)
             \<and> manim_on_close env renderId (path_join rendersDir renderId) a
                   (Some (errno_code e)) [] [] w2 = (r, w'))"
  using assms
  by (auto simp: render_job_def Let_def split: prod.splits sum.splits child_event.splits)

lemma render_job_absent:
  assumes "render_job env steps renderId w = (Inr resp, w')"
    and "path_join rendersDir renderId \<notin> set (undeletable env)"
  shows "\<not> existsSync w' (path_join rendersDir renderId)"
  using render_job_cases [OF assms(1)] assms(2) segments_renderDir [of renderId]
  by (auto dest: catch_absent manim_on_close_absent manim_failed_start_absent)

lemma getAnimation_renderDir_absent:
  assumes "getAnimation env req w = (Inr resp, w')"
    and "\<not> existsSync w (path_join rendersDir (uuidv4 env))"
    and "path_join rendersDir (uuidv4 env) \<notin> set (undeletable env)"
  shows "\<not> existsSync w' (path_join rendersDir (uuidv4 env))"
proof (cases req)
  case None
  with assms show ?thesis by (simp add: getAnimation_def)
next
  case (Some approach)
  show ?thesis
  proof (cases "code approach")
    case None
    with Some assms(1) have "tree w' = tree w"
      by (auto simp: getAnimation_def dest: catch_none_tree)
    with assms(2) show ?thesis by (simp add: existsSync_def)
  next
    case (Some c)
    obtain r1 w1 where n: "generateNarrationSteps env (selectCode c) w = (r1, w1)"
      by (cases "generateNarrationSteps env (selectCode c) w")
    have t1: "tree w1 = tree w" using generateNarrationSteps_tree [OF n] .
    show ?thesis
    proof (cases r1)
      case (Inl e)
      with n Some \<open>req = Some approach\<close> assms(1) have "tree w' = tree w1"
        by (auto simp: getAnimation_def Let_def dest: catch_none_tree)
      with t1 assms(2) show ?thesis by (simp add: existsSync_def)
    next
      case (Inr steps)
      obtain r2 w2 where m: "generateManimScript env (selectCode c) steps w1 = (r2, w2)"
        by (cases "generateManimScript env (selectCode c) steps w1")
      have t2: "tree w2 = tree w1" using generateManimScript_tree [OF m] .
      show ?thesis
      proof (cases r2)
        case (Inl e)
        with n m Inr Some \<open>req = Some approach\<close> assms(1) have "tree w' = tree w2"
          by (auto simp: getAnimation_def Let_def dest: catch_none_tree)
        with t1 t2 assms(2) show ?thesis by (simp add: existsSync_def)
      next
        case (Inr idc)
        obtain scriptId content where idc: "idc = (scriptId, content)" by (cases idc)
        with m Inr have sid: "scriptId = uuidv4 env" by (auto dest: generateManimScript_id)
        from n m \<open>r1 = Inr steps\<close> Inr idc Some \<open>req = Some approach\<close> assms(1)
        have "render_job env steps scriptId w2 = (Inr resp, w')"
          by (simp add: getAnimation_def Let_def)
        with sid assms(3) show ?thesis by (auto dest: render_job_absent)
      qed
    qed
  qed
qed

subsection \<open>Fence removal\<close>

lemma remove_fences_no_fence:
  "\<not> contains ''```'' s \<Longrightarrow> prefix ''```'' lit \<Longrightarrow> remove_fences lit s = s"
proof (induction s)
  case Nil
  then show ?case by simp
next
  case (Cons c cs)
  from Cons.prems have np: "\<not> prefix ''```'' (c # cs)" and nc: "\<not> contains ''```'' cs"
    by auto
  from np Cons.prems(2) have "\<not> prefix lit (c # cs)"
    using prefix_order.trans by blast
  with Cons.IH [OF nc Cons.prems(2)] show ?case by simp
qed

subsection \<open>The search for the video file\<close>

declare findVideoFile_in.simps [simp del]

lemma find_mp4_none: "\<not> has_mp4_in es \<Longrightarrow> find is_mp4_file es = None"
  by (induction es) auto

lemma no_mp4_not_found:
  "\<not> has_mp4 node \<Longrightarrow> fst (findVideoFile_in node dir) = None"
  "\<not> has_mp4_in items \<Longrightarrow> fst (search_subdirs items dir) = None"
proof (induction node dir and items dir rule: findVideoFile_in_search_subdirs.induct)
  case (1 node dir)
  show ?case
  proof (cases node)
    case (DirN r es)
    with 1 show ?thesis
      by (cases r) (auto simp: findVideoFile_in.simps find_mp4_none)
  qed (simp_all add: findVideoFile_in.simps)
next
  case (2 dir)
  then show ?case by simp
next
  case (3 name node items dir)
  then show ?case
    by (auto simp: truthy_path_def split: prod.splits option.splits)
qed

lemma found_nonempty:
  "fst (findVideoFile_in node dir) = Some p \<Longrightarrow> p \<noteq> []"
  "fst (search_subdirs items dir) = Some p \<Longrightarrow> p \<noteq> []"
proof (induction node dir and items dir arbitrary: p and p rule: findVideoFile_in_search_subdirs.induct)
  case (1 node dir)
  show ?case
  proof (cases "readdir node")
    case (Inl e)
    with 1(2) show ?thesis by (simp add: findVideoFile_in.simps)
  next
    case (Inr items)
    show ?thesis
    proof (cases "find is_mp4_file items")
      case None
      with Inr 1(2) have "fst (search_subdirs items dir) = Some p"
        by (simp add: findVideoFile_in.simps)
      with 1(1) [OF Inr None] show ?thesis .
    next
      case (Some item)
      with Inr 1(2) show ?thesis
        by (cases item) (auto simp: findVideoFile_in.simps path_join_def)
    qed
  qed
next
  case (2 dir)
  then show ?case by simp
next
  case (3 name node items dir)
  show ?case
  proof (cases "isDirectory node")
    case False
    with 3(3) [OF False] 3(4) show ?thesis by simp
  next
    case True
    obtain result evs where f: "findVideoFile_in node (path_join dir name) = (result, evs)"
      by (cases "findVideoFile_in node (path_join dir name)")
    show ?thesis
    proof (cases "truthy_path result")
      case True
      with \<open>isDirectory node\<close> f 3(4) show ?thesis by (simp add: truthy_path_def)
    next
      case False
      with \<open>isDirectory node\<close> f 3(4) have "fst (search_subdirs items dir) = Some p"
        by (simp split: prod.splits)
      with 3(2) [OF \<open>isDirectory node\<close> f [symmetric] False] show ?thesis .
    qed
  qed
qed

lemma truthy_found: "truthy_path (fst (findVideoFile_in node dir)) = (fst (findVideoFile_in node dir) \<noteq> None)"
  by (cases "fst (findVideoFile_in node dir)") (auto simp: truthy_path_def dest: found_nonempty)

lemma search_subdirs_first:
  "fst (search_subdirs items dir) =
     (case find (\<lambda>item. isDirectory (snd item) \<and>
                   fst (findVideoFile_in (snd item) (path_join dir (fst item))) \<noteq> None) items of
        None \<Rightarrow> None
      | Some item \<Rightarrow> fst (findVideoFile_in (snd item) (path_join dir (fst item))))"
proof (induction items)
  case Nil
  show ?case by simp
next
  case (Cons item items)
  obtain n c where item: "item = (n, c)" by (cases item)
  show ?case
  proof (cases "isDirectory c")
    case False
    with Cons item show ?thesis by simp
  next
    case True
    obtain r evs where f: "findVideoFile_in c (path_join dir n) = (r, evs)"
      by (cases "findVideoFile_in c (path_join dir n)")
    obtain r' evs' where s: "search_subdirs items dir = (r', evs')"
      by (cases "search_subdirs items dir")
    have t: "truthy_path r = (r \<noteq> None)" using truthy_found [of c "path_join dir n"] f by simp
    show ?thesis
    proof (cases r)
      case None
      with Cons item True f s t show ?thesis by simp
    next
      case (Some p)
      with item True f s t show ?thesis by simp
    qed
  qed
qed

lemma findVideoFile_in_files_first:
  assumes "readdir node = Inr items"
  shows "find is_mp4_file items = Some (name, f) \<Longrightarrow>
           findVideoFile_in node dir = (Some (path_join dir name), [])"
    and "find is_mp4_file items = None \<Longrightarrow> findVideoFile_in node dir = search_subdirs items dir"
  using assms by (simp_all add: findVideoFile_in.simps)

lemma findVideoFile_at:
  "lookup (tree w) (segments dir) = Some node \<Longrightarrow>
   fst (findVideoFile dir w) = Inr (fst (findVideoFile_in node dir))"
  by (simp add: findVideoFile_def split: prod.splits)

lemma spawns_append [simp]: "spawns (xs @ ys) = spawns xs @ spawns ys"
  by (induction xs rule: spawns.induct) auto

lemma search_subdirs_skips_failed:
  assumes "isDirectory node" "readdir node = Inl e"
  shows "search_subdirs ((name, node) # items) dir =
         (fst (search_subdirs items dir),
          ConsoleError (''Error finding video file: '' @ e) # snd (search_subdirs items dir))"
  using assms by (simp add: findVideoFile_in.simps truthy_path_def split: prod.splits)

subsection \<open>The outcome of speech synthesis\<close>

lemma generateAudio_on_close:
  assumes "join_steps steps = Inr text"
    and "writeFileSync (path_join audioDir (audioId @ ''_script.py'')) w = (Inr u, w1)"
    and "spawn env ''python'' [path_join audioDir (audioId @ ''_script.py'')] None w1 =
           (OnClose c out err, w2)"
  shows "generateAudio env steps audioId w =
         (let w3 = unlink_script env (path_join audioDir (audioId @ ''_script.py'')) w2 in
          if c = Some 0 \<and> existsSync w3 (path_join audioDir (audioId @ ''.wav''))
          then (Inr (path_join audioDir (audioId @ ''.wav'')), w3)
          else (Inl (''Audio generation failed: '' @ err),
                consoleError (''Audio generation failed: '' @ err) w3))"
  using assms by (simp add: generateAudio_def pythonProcess_on_close_def unlink_script_def Let_def)

lemma generateAudio_on_error:
  assumes "join_steps steps = Inr text"
    and "writeFileSync (path_join audioDir (audioId @ ''_script.py'')) w = (Inr u, w1)"
    and "spawn env ''python'' [path_join audioDir (audioId @ ''_script.py'')] None w1 =
           (OnError m e, w2)"
  shows "generateAudio env steps audioId w =
         (Inl (''Failed to start audio generation: '' @ m),
          consoleError ''Audio generation failed: ''
            (unlink_script env (path_join audioDir (audioId @ ''_script.py'')) w2))"
  using assms by (simp add: generateAudio_def pythonProcess_on_close_def unlink_script_def Let_def)

lemma generateAudio_resolved:
  assumes "generateAudio env steps audioId w = (Inr p, w')"
  shows "p = path_join audioDir (audioId @ ''.wav'') \<and> existsSync w' p"
  using assms
  by (auto simp: generateAudio_def pythonProcess_on_close_def Let_def
           split: sum.splits prod.splits child_event.splits if_splits)

lemma generateAudio_resolved_closed:
  assumes "generateAudio env steps audioId w = (Inr p, w')"
  shows "\<exists>narr u w1 out err w2.
           join_steps steps = Inr narr
           \<and> writeFileSync (path_join audioDir (audioId @ ''_script.py'')) w = (Inr u, w1)
           \<and> spawn env ''python'' [path_join audioDir (audioId @ ''_script.py'')] None w1 =
                (OnClose (Some 0) out err, w2)"
proof (cases "join_steps steps")
  case (Inl e)
  with assms show ?thesis by (simp add: generateAudio_def)
next
  case (Inr narr)
  let ?script = "path_join audioDir (audioId @ ''_script.py'')"
  obtain r1 w1 where wr: "writeFileSync ?script w = (r1, w1)" by (cases "writeFileSync ?script w")
  show ?thesis
  proof (cases r1)
    case (Inl e)
    with assms Inr wr show ?thesis by (simp add: generateAudio_def)
  next
    case ok: (Inr u)
    obtain ev w2 where sp: "spawn env ''python'' [?script] None w1 = (ev, w2)"
      by (cases "spawn env ''python'' [?script] None w1")
    show ?thesis
    proof (cases ev)
      case (OnError m e)
      with assms Inr wr ok sp show ?thesis by (simp add: generateAudio_def split: prod.splits)
    next
      case (OnClose c out err)
      with assms Inr wr ok sp have "c = Some 0"
        by (auto simp: generateAudio_def pythonProcess_on_close_def Let_def split: if_splits)
      with Inr wr ok sp OnClose show ?thesis by blast
    qed
  qed
qed

lemma generateAudio_closed:
  assumes "join_steps steps = Inr text"
    and "writeFileSync (path_join audioDir (audioId @ ''_script.py'')) w = (Inr u, w1)"
    and "spawn env ''python'' [path_join audioDir (audioId @ ''_script.py'')] None w1 =
           (OnClose c out err, w2)"
    and "generateAudio env steps audioId w = (r, w3)"
  shows "r = (if c = Some 0 \<and> existsSync w3 (path_join audioDir (audioId @ ''.wav''))
              then Inr (path_join audioDir (audioId @ ''.wav''))
              else Inl (''Audio generation failed: '' @ err))"
  using assms(4) generateAudio_on_close [OF assms(1,2,3)]
  by (auto simp: Let_def split: if_splits)

lemma unlink_script_ok:
  assumes "unlinkSync env p w = (Inr u, w')"
  shows "unlink_script env p w = w'" "\<not> existsSync (unlink_script env p w) p"
  using assms unlinkSync_ok_absent [OF assms] by (simp_all add: unlink_script_def)

lemma unlink_script_failed:
  assumes "unlinkSync env p w = (Inl e, w')"
  shows "unlink_script env p w = consoleError (''Error cleaning up script file: '' @ e) w"
  using assms by (auto simp: unlink_script_def unlinkSync_def split: if_splits option.splits)

lemma generateAudio_world:
  assumes "join_steps steps = Inr text"
    and "writeFileSync (path_join audioDir (audioId @ ''_script.py'')) w = (Inr u, w1)"
    and "spawn env ''python'' [path_join audioDir (audioId @ ''_script.py'')] None w1 =
           (OnClose c out err, w2)"
    and "generateAudio env steps audioId w = (r, w3)"
  shows "w3 = unlink_script env (path_join audioDir (audioId @ ''_script.py'')) w2
       \<or> w3 = consoleError (''Audio generation failed: '' @ err)
                 (unlink_script env (path_join audioDir (audioId @ ''_script.py'')) w2)"
  using assms(4) generateAudio_on_close [OF assms(1,2,3)]
  by (auto simp: Let_def split: if_splits)

lemma generateAudio_settled_world:
  assumes "join_steps steps = Inr text"
    and "writeFileSync (path_join audioDir (audioId @ ''_script.py'')) w = (Inr u, w1)"
    and "spawn env ''python'' [path_join audioDir (audioId @ ''_script.py'')] None w1 = (ev, w2)"
    and "generateAudio env steps audioId w = (r, w3)"
  shows "w3 = unlink_script env (path_join audioDir (audioId @ ''_script.py'')) w2
       \<or> (\<exists>line. w3 = consoleError line
                 (unlink_script env (path_join audioDir (audioId @ ''_script.py'')) w2))"
proof (cases ev)
  case (OnError m e)
  from generateAudio_on_error [OF assms(1,2) assms(3) [unfolded OnError]] assms(4)
  show ?thesis by auto
next
  case (OnClose c out err)
  from generateAudio_world [OF assms(1,2) assms(3) [unfolded OnClose] assms(4)]
  show ?thesis by auto
qed

lemma generateAudio_settled:
  assumes "join_steps steps = Inr text"
    and "writeFileSync (path_join audioDir (audioId @ ''_script.py'')) w = (Inr u, w1)"
    and "spawn env ''python'' [path_join audioDir (audioId @ ''_script.py'')] None w1 = (ev, w2)"
    and "generateAudio env steps audioId w = (r, w3)"
  shows "r = (case ev of
                OnError m er \<Rightarrow> Inl (''Failed to start audio generation: '' @ m)
              | OnClose c out err \<Rightarrow>
                  if c = Some 0 \<and> existsSync w3 (path_join audioDir (audioId @ ''.wav''))
                  then Inr (path_join audioDir (audioId @ ''.wav''))
                  else Inl (''Audio generation failed: '' @ err))"
proof (cases ev)
  case (OnError m e)
  from generateAudio_on_error [OF assms(1,2) assms(3) [unfolded OnError]] assms(4) OnError
  show ?thesis by simp
next
  case (OnClose c out err)
  from generateAudio_closed [OF assms(1,2) assms(3) [unfolded OnClose] assms(4)] OnClose
  show ?thesis by simp
qed

subsection \<open>Evaluation of the sample runs\<close>

lemmas eval_defs =
  rendered_world_def
  getAnimation_def render_job_def manim_on_close_def manim_close_try_def manim_on_error_def
  getAnimation_catch_def cleanup_def unlinkAudio_def combineVideoAndAudio_def ffmpeg_args_def
  generateAudio_def pythonProcess_on_close_def ffmpeg_on_close_def
  generateManimScript_def generateNarrationSteps_def findVideoFile_def
  findVideoFile_in.simps deleteDirectory_def spawn_def writeFileSync_def mkdirSync_def
  unlinkSync_def rmSync_def existsSync_def consoleError_def selectCode_def js_or_def
  path_join_def basename_def segments_def endsWith_def truthy_path_def
  rendersDir_def videosDir_def audioDir_def Let_def
  sample_env_def sample_run_def sample_world_def sample_request_def put_file_def
  show_code_def show_int_def show_nat.simps digit_def

subsection \<open>Child processes in the trace\<close>

lemma trace_consoleError [simp]: "spawns (trace (consoleError m w)) = spawns (trace w)"
  by (simp add: consoleError_def)

lemma rmSync_trace: "rmSync env p w = (r, w') \<Longrightarrow> trace w' = trace w"
  by (auto simp: rmSync_def split: if_splits)

lemma unlinkSync_trace: "unlinkSync env p w = (r, w') \<Longrightarrow> trace w' = trace w"
  by (auto simp: unlinkSync_def split: if_splits option.splits)

lemma mkdirSync_trace: "mkdirSync p w = (r, w') \<Longrightarrow> trace w' = trace w"
  by (auto simp: mkdirSync_def split: sum.splits)

lemma writeFileSync_trace: "writeFileSync p w = (r, w') \<Longrightarrow> trace w' = trace w"
  by (auto simp: writeFileSync_def split: sum.splits)

lemma deleteDirectory_spawns:
  "deleteDirectory env d w = (r, w') \<Longrightarrow> spawns (trace w') = spawns (trace w)"
  by (auto simp: deleteDirectory_def split: if_splits prod.splits sum.splits dest: rmSync_trace)

lemma unlinkAudio_spawns:
  "unlinkAudio env a w = (r, w') \<Longrightarrow> spawns (trace w') = spawns (trace w)"
  by (auto simp: unlinkAudio_def split: if_splits option.splits dest: unlinkSync_trace)

lemma cleanup_spawns:
  assumes "cleanup env rd a w = (r, w')"
  shows "spawns (trace w') = spawns (trace w)"
proof -
  obtain r1 w1 where d: "(case rd of None \<Rightarrow> (Inr (), w)
            | Some d \<Rightarrow> if d \<noteq> [] then deleteDirectory env d w else (Inr (), w)) = (r1, w1)"
    by (cases "(case rd of None \<Rightarrow> (Inr (), w)
            | Some d \<Rightarrow> if d \<noteq> [] then deleteDirectory env d w else (Inr (), w))")
  then have s1: "spawns (trace w1) = spawns (trace w)"
    by (auto split: option.splits if_splits dest: deleteDirectory_spawns)
  show ?thesis
  proof (cases r1)
    case (Inl e)
    with assms d s1 show ?thesis by (simp add: cleanup_def)
  next
    case (Inr u)
    with assms d have "unlinkAudio env a w1 = (r, w')" by (simp add: cleanup_def)
    from unlinkAudio_spawns [OF this] s1 show ?thesis by simp
  qed
qed

lemma catch_spawns:
  "getAnimation_catch env rd a e w = (r, w') \<Longrightarrow> spawns (trace w') = spawns (trace w)"
  by (auto simp: getAnimation_catch_def split: prod.splits sum.splits dest: cleanup_spawns)

lemma generateNarrationSteps_spawns:
  "generateNarrationSteps env src w = (r, w') \<Longrightarrow> spawns (trace w') = spawns (trace w)"
  by (auto simp: generateNarrationSteps_def consoleError_def Let_def split: sum.splits)

lemma generateManimScript_spawns:
  "generateManimScript env src steps w = (r, w') \<Longrightarrow> spawns (trace w') = spawns (trace w)"
  by (auto simp: generateManimScript_def consoleError_def Let_def split: sum.splits)

lemma spawn_spawns:
  "spawn env cmd args cwd w = (ev, w') \<Longrightarrow> spawns (trace w') = spawns (trace w) @ [(cmd, args, cwd)]"
  by (auto simp: spawn_def Let_def split: proc_run.splits)

lemma pythonProcess_on_close_spawns:
  assumes "pythonProcess_on_close env scriptPath a c err w = (r, w')"
  shows "spawns (trace w') = spawns (trace w)"
proof -
  obtain r1 w1 where un: "unlinkSync env scriptPath w = (r1, w1)"
    by (cases "unlinkSync env scriptPath w")
  have t1: "trace w1 = trace w" using unlinkSync_trace [OF un] .
  from assms un t1 show ?thesis
    by (cases r1) (auto simp: pythonProcess_on_close_def Let_def split: if_splits)
qed

lemma generateAudio_spawns:
  assumes "generateAudio env steps audioId w = (r, w')"
  shows "set (spawns (trace w')) \<subseteq>
         insert (''python'', [path_join audioDir (audioId @ ''_script.py'')], None)
                (set (spawns (trace w)))"
proof (cases "join_steps steps")
  case (Inl e)
  with assms show ?thesis by (auto simp: generateAudio_def)
next
  case (Inr narr)
  let ?script = "path_join audioDir (audioId @ ''_script.py'')"
  obtain r1 w1 where wr: "writeFileSync ?script w = (r1, w1)" by (cases "writeFileSync ?script w")
  have t1: "trace w1 = trace w" using writeFileSync_trace [OF wr] .
  show ?thesis
  proof (cases r1)
    case (Inl e)
    with assms Inr wr t1 show ?thesis by (auto simp: generateAudio_def)
  next
    case ok: (Inr u)
    obtain ev w2 where sp: "spawn env ''python'' [?script] None w1 = (ev, w2)"
      by (cases "spawn env ''python'' [?script] None w1")
    have t2: "spawns (trace w2) = spawns (trace w) @ [(''python'', [?script], None)]"
      using spawn_spawns [OF sp] t1 by simp
    show ?thesis
    proof (cases ev)
      case (OnError m e)
      obtain late w3 where cl:
        "pythonProcess_on_close env ?script (path_join audioDir (audioId @ ''.wav''))
           (Some (errno_code e)) [] w2 = (late, w3)"
        by (cases "pythonProcess_on_close env ?script (path_join audioDir (audioId @ ''.wav''))
           (Some (errno_code e)) [] w2")
      with assms Inr wr ok sp OnError have "w' = w3" by (simp add: generateAudio_def Let_def)
      with pythonProcess_on_close_spawns [OF cl] t2 show ?thesis by auto
    next
      case (OnClose c out err)
      with assms Inr wr ok sp
      have "pythonProcess_on_close env ?script (path_join audioDir (audioId @ ''.wav''))
              c err w2 = (r, w')"
        by (simp add: generateAudio_def Let_def)
      from pythonProcess_on_close_spawns [OF this] t2 show ?thesis by auto
    qed
  qed
qed

lemma catch_none_spawns_tree:
  assumes "getAnimation_catch env None None e w = (r, w')"
  shows "tree w' = tree w \<and> spawns (trace w') = spawns (trace w)"
  using catch_none_tree [OF assms] catch_spawns [OF assms] by simp

lemma getAnimation_cases:
  assumes "getAnimation env req w = (Inr resp, w')"
  shows "(tree w' = tree w \<and> spawns (trace w') = spawns (trace w))
       \<or> (\<exists>steps w2. tree w2 = tree w \<and> spawns (trace w2) = spawns (trace w)
             \<and> render_job env steps (uuidv4 env) w2 = (Inr resp, w'))"
proof (cases req)
  case None
  with assms show ?thesis by (simp add: getAnimation_def)
next
  case (Some approach)
  show ?thesis
  proof (cases "code approach")
    case None
    with Some assms show ?thesis
      by (auto simp: getAnimation_def dest: catch_none_spawns_tree)
  next
    case (Some c)
    obtain r1 w1 where n: "generateNarrationSteps env (selectCode c) w = (r1, w1)"
      by (cases "generateNarrationSteps env (selectCode c) w")
    have t1: "tree w1 = tree w" "spawns (trace w1) = spawns (trace w)"
      using generateNarrationSteps_tree [OF n] generateNarrationSteps_spawns [OF n] by simp_all
    show ?thesis
    proof (cases r1)
      case (Inl e)
      with n Some \<open>req = Some approach\<close> assms
      have "getAnimation_catch env None None e w1 = (Inr resp, w')"
        by (simp add: getAnimation_def Let_def)
      from catch_none_spawns_tree [OF this] t1 show ?thesis by simp
    next
      case (Inr steps)
      obtain r2 w2 where m: "generateManimScript env (selectCode c) steps w1 = (r2, w2)"
        by (cases "generateManimScript env (selectCode c) steps w1")
      have t2: "tree w2 = tree w" "spawns (trace w2) = spawns (trace w)"
        using generateManimScript_tree [OF m] generateManimScript_spawns [OF m] t1 by simp_all
      show ?thesis
      proof (cases r2)
        case (Inl e)
        with n m Inr Some \<open>req = Some approach\<close> assms
        have "getAnimation_catch env None None e w2 = (Inr resp, w')"
          by (simp add: getAnimation_def Let_def)
        from catch_none_spawns_tree [OF this] t2 show ?thesis by simp
      next
        case (Inr idc)
        obtain scriptId content where idc: "idc = (scriptId, content)" by (cases idc)
        with m Inr have sid: "scriptId = uuidv4 env" by (auto dest: generateManimScript_id)
        from n m \<open>r1 = Inr steps\<close> Inr idc Some \<open>req = Some approach\<close> assms
        have "render_job env steps scriptId w2 = (Inr resp, w')"
          by (simp add: getAnimation_def Let_def)
        with sid t2 show ?thesis by blast
      qed
    qed
  qed
qed

lemma manim_spawn_not_speech:
  "manim_spawn renderId \<noteq> (''python'', [path_join audioDir (audioId @ ''_script.py'')], None)"
  by (simp add: manim_spawn_def)

lemma render_job_audio_absent:
  assumes run: "render_job env steps renderId w = (Inr resp, w')"
    and after: "manim_spawn renderId \<in> set (spawns (trace w'))"
    and before: "manim_spawn renderId \<notin> set (spawns (trace w))"
  shows "\<not> existsSync w' (path_join audioDir (renderId @ ''.wav''))"
proof -
  let ?rd = "path_join rendersDir renderId"
  obtain r1 w1 where mk: "mkdirSync ?rd w = (r1, w1)" by (cases "mkdirSync ?rd w")
  have t1: "trace w1 = trace w" using mkdirSync_trace [OF mk] .
  show ?thesis
  proof (cases r1)
    case (Inl e)
    with run mk have "getAnimation_catch env (Some ?rd) None e w1 = (Inr resp, w')"
      by (simp add: render_job_def Let_def)
    from catch_spawns [OF this] t1 after before show ?thesis by simp
  next
    case (Inr u)
    obtain r2 w2 where wr: "writeFileSync (path_join ?rd ''animation.py'') w1 = (r2, w2)"
      by (cases "writeFileSync (path_join ?rd ''animation.py'') w1")
    have t2: "trace w2 = trace w" using writeFileSync_trace [OF wr] t1 by simp
    show ?thesis
    proof (cases r2)
      case (Inl e)
      with run mk \<open>r1 = Inr u\<close> wr
      have "getAnimation_catch env (Some ?rd) None e w2 = (Inr resp, w')"
        by (simp add: render_job_def Let_def)
      from catch_spawns [OF this] t2 after before show ?thesis by simp
    next
      case (Inr u')
      obtain r3 w3 where ga: "generateAudio env steps renderId w2 = (r3, w3)"
        by (cases "generateAudio env steps renderId w2")
      show ?thesis
      proof (cases r3)
        case (Inl e)
        with run mk \<open>r1 = Inr u\<close> wr \<open>r2 = Inr u'\<close> ga
        have "getAnimation_catch env (Some ?rd) None e w3 = (Inr resp, w')"
          by (simp add: render_job_def Let_def)
        from catch_spawns [OF this] after
        have "manim_spawn renderId \<in> set (spawns (trace w3))" by simp
        with generateAudio_spawns [OF ga] manim_spawn_not_speech [of renderId renderId] t2 before
        show ?thesis by auto
      next
        case (Inr audioFilePath)
        with ga have a: "audioFilePath = path_join audioDir (renderId @ ''.wav'')"
          by (auto dest: generateAudio_resolved)
        then have ne: "audioFilePath \<noteq> []" by (simp add: path_join_def)
        obtain ev w4 where sp:
          "spawn env ''python'' [''-m'', ''manim'', ''animation.py'', ''-ql''] (Some ?rd) w3 = (ev, w4)"
          by (cases "spawn env ''python'' [''-m'', ''manim'', ''animation.py'', ''-ql''] (Some ?rd) w3")
        show ?thesis
        proof (cases ev)
          case (OnError m e)
          with run mk \<open>r1 = Inr u\<close> wr \<open>r2 = Inr u'\<close> ga Inr sp
          obtain w5 again where
            "manim_on_error env ?rd audioFilePath m w4 = (Inr resp, w5)"
            "manim_on_close env renderId ?rd audioFilePath (Some (errno_code e)) [] [] w5 =
               (again, w')"
            by (auto simp: render_job_def Let_def split: prod.splits sum.splits)
          from manim_failed_start_absent [OF this] ne a show ?thesis by simp
        next
          case (OnClose c out err)
          with run mk \<open>r1 = Inr u\<close> wr \<open>r2 = Inr u'\<close> ga Inr sp
          have "manim_on_close env renderId ?rd audioFilePath c out err w4 = (Inr resp, w')"
            by (simp add: render_job_def Let_def)
          from manim_on_close_absent [OF this] ne a show ?thesis by simp
        qed
      qed
    qed
  qed
qed

lemma getAnimation_audio_absent:
  assumes run: "getAnimation env req w = (Inr resp, w')"
    and after: "manim_spawn (uuidv4 env) \<in> set (spawns (trace w'))"
    and before: "manim_spawn (uuidv4 env) \<notin> set (spawns (trace w))"
  shows "\<not> existsSync w' (path_join audioDir (uuidv4 env @ ''.wav''))"
  using getAnimation_cases [OF run]
proof (elim disjE exE conjE)
  assume "spawns (trace w') = spawns (trace w)"
  with after before show ?thesis by simp
next
  fix steps w2
  assume "spawns (trace w2) = spawns (trace w)"
    and "render_job env steps (uuidv4 env) w2 = (Inr resp, w')"
  with after before show ?thesis by (auto dest: render_job_audio_absent)
qed

subsection \<open>Prompts in the trace\<close>

lemma prompts_append [simp]: "prompts (xs @ ys) = prompts xs @ prompts ys"
  by (induction xs rule: prompts.induct) auto

lemma prompts_consoleError [simp]: "prompts (trace (consoleError m w)) = prompts (trace w)"
  by (simp add: consoleError_def)

lemma prompts_console_only [simp]: "prompts (map ConsoleError ms) = []"
  by (induction ms) auto

lemma spawn_prompts:
  "spawn env cmd args cwd w = (ev, w') \<Longrightarrow> prompts (trace w') = prompts (trace w)"
  by (auto simp: spawn_def Let_def split: proc_run.splits)

lemma deleteDirectory_prompts:
  "deleteDirectory env d w = (r, w') \<Longrightarrow> prompts (trace w') = prompts (trace w)"
  by (auto simp: deleteDirectory_def split: if_splits prod.splits sum.splits dest: rmSync_trace)

lemma unlinkAudio_prompts:
  "unlinkAudio env a w = (r, w') \<Longrightarrow> prompts (trace w') = prompts (trace w)"
  by (auto simp: unlinkAudio_def split: if_splits option.splits dest: unlinkSync_trace)

lemma cleanup_prompts:
  assumes "cleanup env rd a w = (r, w')"
  shows "prompts (trace w') = prompts (trace w)"
proof -
  obtain r1 w1 where d: "(case rd of None \<Rightarrow> (Inr (), w)
            | Some d \<Rightarrow> if d \<noteq> [] then deleteDirectory env d w else (Inr (), w)) = (r1, w1)"
    by (cases "(case rd of None \<Rightarrow> (Inr (), w)
            | Some d \<Rightarrow> if d \<noteq> [] then deleteDirectory env d w else (Inr (), w))")
  then have s1: "prompts (trace w1) = prompts (trace w)"
    by (auto split: option.splits if_splits dest: deleteDirectory_prompts)
  show ?thesis
  proof (cases r1)
    case (Inl e)
    with assms d s1 show ?thesis by (simp add: cleanup_def)
  next
    case (Inr u)
    with assms d have "unlinkAudio env a w1 = (r, w')" by (simp add: cleanup_def)
    from unlinkAudio_prompts [OF this] s1 show ?thesis by simp
  qed
qed

lemma cleanup_after_log_prompts:
  "cleanup env rd a (consoleError m w) = (r, w') \<Longrightarrow> prompts (trace w') = prompts (trace w)"
  by (drule cleanup_prompts) simp

lemma catch_prompts:
  "getAnimation_catch env rd a e w = (r, w') \<Longrightarrow> prompts (trace w') = prompts (trace w)"
  by (auto simp: getAnimation_catch_def split: prod.splits sum.splits dest: cleanup_after_log_prompts)

lemma manim_on_error_prompts:
  "manim_on_error env rd a e w = (r, w') \<Longrightarrow> prompts (trace w') = prompts (trace w)"
  by (auto simp: manim_on_error_def split: prod.splits sum.splits dest: cleanup_after_log_prompts)

lemma pythonProcess_on_close_prompts:
  assumes "pythonProcess_on_close env scriptPath a c err w = (r, w')"
  shows "prompts (trace w') = prompts (trace w)"
proof -
  obtain r1 w1 where un: "unlinkSync env scriptPath w = (r1, w1)"
    by (cases "unlinkSync env scriptPath w")
  have t1: "trace w1 = trace w" using unlinkSync_trace [OF un] .
  from assms un t1 show ?thesis
    by (cases r1) (auto simp: pythonProcess_on_close_def Let_def split: if_splits)
qed

lemma ffmpeg_on_close_prompts:
  assumes "ffmpeg_on_close outputPath c err w = (r, w')"
  shows "prompts (trace w') = prompts (trace w)"
  using assms by (auto simp: ffmpeg_on_close_def split: if_splits)

lemma generateAudio_prompts:
  assumes "generateAudio env steps audioId w = (r, w')"
  shows "prompts (trace w') = prompts (trace w)"
proof (cases "join_steps steps")
  case (Inl e)
  with assms show ?thesis by (auto simp: generateAudio_def)
next
  case (Inr narr)
  let ?script = "path_join audioDir (audioId @ ''_script.py'')"
  obtain r1 w1 where wr: "writeFileSync ?script w = (r1, w1)" by (cases "writeFileSync ?script w")
  have t1: "trace w1 = trace w" using writeFileSync_trace [OF wr] .
  show ?thesis
  proof (cases r1)
    case (Inl e)
    with assms Inr wr t1 show ?thesis by (auto simp: generateAudio_def)
  next
    case ok: (Inr u)
    obtain ev w2 where sp: "spawn env ''python'' [?script] None w1 = (ev, w2)"
      by (cases "spawn env ''python'' [?script] None w1")
    have t2: "prompts (trace w2) = prompts (trace w)"
      using spawn_prompts [OF sp] t1 by simp
    show ?thesis
    proof (cases ev)
      case (OnError m e)
      obtain late w3 where cl:
        "pythonProcess_on_close env ?script (path_join audioDir (audioId @ ''.wav''))
           (Some (errno_code e)) [] w2 = (late, w3)"
        by (cases "pythonProcess_on_close env ?script (path_join audioDir (audioId @ ''.wav''))
           (Some (errno_code e)) [] w2")
      with assms Inr wr ok sp OnError have "w' = w3" by (simp add: generateAudio_def Let_def)
      with pythonProcess_on_close_prompts [OF cl] t2 show ?thesis by simp
    next
      case (OnClose c out err)
      with assms Inr wr ok sp
      have "pythonProcess_on_close env ?script (path_join audioDir (audioId @ ''.wav''))
              c err w2 = (r, w')"
        by (simp add: generateAudio_def Let_def)
      from pythonProcess_on_close_prompts [OF this] t2 show ?thesis by simp
    qed
  qed
qed

lemma findVideoFile_in_console:
  "\<exists>ms. snd (findVideoFile_in node dir) = map ConsoleError ms"
  "\<exists>ms. snd (search_subdirs items dir) = map ConsoleError ms"
proof (induction node dir and items dir rule: findVideoFile_in_search_subdirs.induct)
  case (1 node dir)
  show ?case
  proof (cases "readdir node")
    case (Inl e)
    have "[ConsoleError (''Error finding video file: '' @ e)] =
          map ConsoleError [''Error finding video file: '' @ e]" by simp
    with Inl show ?thesis by (auto simp: findVideoFile_in.simps simp del: list.map)
  next
    case (Inr items)
    show ?thesis
    proof (cases "find is_mp4_file items")
      case None
      with Inr 1 show ?thesis by (simp add: findVideoFile_in.simps)
    next
      case (Some item)
      have "[] = map ConsoleError []" by simp
      with Some Inr show ?thesis
        by (cases item) (auto simp: findVideoFile_in.simps simp del: list.map)
    qed
  qed
next
  case (2 dir)
  have "[] = map ConsoleError []" by simp
  then show ?case by (auto simp del: list.map)
next
  case (3 name node items dir)
  show ?case
  proof (cases "isDirectory node")
    case False
    with 3(3) show ?thesis by simp
  next
    case True
    obtain result evs where f: "findVideoFile_in node (path_join dir name) = (result, evs)"
      by (cases "findVideoFile_in node (path_join dir name)")
    from 3(1) [OF True] f obtain ms where ms: "evs = map ConsoleError ms" by auto
    show ?thesis
    proof (cases "truthy_path result")
      case True
      with \<open>isDirectory node\<close> f ms show ?thesis by auto
    next
      case False
      from 3(2) [OF \<open>isDirectory node\<close> f [symmetric] False]
      obtain ms' where ms': "snd (search_subdirs items dir) = map ConsoleError ms'" by auto
      have "evs @ map ConsoleError ms' = map ConsoleError (ms @ ms')" using ms by simp
      with \<open>isDirectory node\<close> f False ms' show ?thesis
        by (auto split: prod.splits simp del: map_append)
    qed
  qed
qed

lemma findVideoFile_prompts:
  assumes "findVideoFile dir w = (r, w')"
  shows "prompts (trace w') = prompts (trace w)"
proof (cases "lookup (tree w) (segments dir)")
  case None
  with assms show ?thesis by (simp add: findVideoFile_def)
next
  case (Some node)
  obtain ms where "snd (findVideoFile_in node dir) = map ConsoleError ms"
    using findVideoFile_in_console(1) by blast
  with Some assms show ?thesis
    by (auto simp: findVideoFile_def split: prod.splits)
qed

lemma combineVideoAndAudio_prompts:
  assumes "combineVideoAndAudio env v a outp w = (r, w')"
  shows "prompts (trace w') = prompts (trace w)"
proof -
  obtain ev w1 where sp: "spawn env ''ffmpeg'' (ffmpeg_args v a outp) None w = (ev, w1)"
    by (cases "spawn env ''ffmpeg'' (ffmpeg_args v a outp) None w")
  have p1: "prompts (trace w1) = prompts (trace w)" using spawn_prompts [OF sp] .
  show ?thesis
  proof (cases ev)
    case (OnError m e)
    obtain late w2 where cl: "ffmpeg_on_close outp (Some (errno_code e)) [] w1 = (late, w2)"
      by (cases "ffmpeg_on_close outp (Some (errno_code e)) [] w1")
    with assms sp OnError have "w' = w2" by (simp add: combineVideoAndAudio_def)
    with ffmpeg_on_close_prompts [OF cl] p1 show ?thesis by simp
  next
    case (OnClose c out err)
    with assms sp have "ffmpeg_on_close outp c err w1 = (r, w')"
      by (simp add: combineVideoAndAudio_def)
    from ffmpeg_on_close_prompts [OF this] p1 show ?thesis by simp
  qed
qed

lemma manim_close_try_prompts:
  assumes "manim_close_try env renderId d a out err w = (r, w')"
  shows "prompts (trace w') = prompts (trace w)"
proof -
  obtain rv w1 where f: "findVideoFile d w = (rv, w1)" by (cases "findVideoFile d w")
  have p1: "prompts (trace w1) = prompts (trace w)" using findVideoFile_prompts [OF f] .
  show ?thesis
  proof (cases rv)
    case (Inl e)
    with assms f p1 show ?thesis by (simp add: manim_close_try_def)
  next
    case (Inr videoPath)
    show ?thesis
    proof (cases "truthy_path videoPath")
      case False
      with assms f Inr p1 show ?thesis
        by (auto simp: manim_close_try_def split: prod.splits sum.splits
                 dest: cleanup_after_log_prompts)
    next
      case True
      let ?public = "path_join videosDir renderId"
      let ?final = "path_join ?public
                      (replace_first ''.mp4'' [] (basename (the videoPath)) @ ''_with_audio.mp4'')"
      obtain r2 w2 where mk: "mkdirSync ?public w1 = (r2, w2)" by (cases "mkdirSync ?public w1")
      have p2: "prompts (trace w2) = prompts (trace w)" using mkdirSync_trace [OF mk] p1 by simp
      show ?thesis
      proof (cases r2)
        case (Inl e)
        with assms f Inr True mk p2 show ?thesis by (simp add: manim_close_try_def Let_def)
      next
        case ok: (Inr u)
        obtain r3 w3 where cb: "combineVideoAndAudio env (the videoPath) a ?final w2 = (r3, w3)"
          by (cases "combineVideoAndAudio env (the videoPath) a ?final w2")
        have p3: "prompts (trace w3) = prompts (trace w)"
          using combineVideoAndAudio_prompts [OF cb] p2 by simp
        show ?thesis
        proof (cases r3)
          case (Inl e)
          with assms f Inr True mk ok cb p3 show ?thesis
            by (simp add: manim_close_try_def Let_def)
        next
          case muxed: (Inr outp)
          obtain r4 w4 where dl: "deleteDirectory env d w3 = (r4, w4)"
            by (cases "deleteDirectory env d w3")
          have p4: "prompts (trace w4) = prompts (trace w)"
            using deleteDirectory_prompts [OF dl] p3 by simp
          obtain r5 w5 where ua: "unlinkAudio env (Some a) w4 = (r5, w5)"
            by (cases "unlinkAudio env (Some a) w4")
          have p5: "prompts (trace w5) = prompts (trace w)"
            using unlinkAudio_prompts [OF ua] p4 by simp
          from assms f Inr True mk ok cb muxed dl ua p4 p5 show ?thesis
            by (auto simp: manim_close_try_def Let_def split: sum.splits)
        qed
      qed
    qed
  qed
qed

lemma manim_on_close_prompts:
  assumes "manim_on_close env renderId d a c out err w = (r, w')"
  shows "prompts (trace w') = prompts (trace w)"
proof (cases "c \<noteq> Some 0")
  case True
  with assms obtain r1 where
    "cleanup env (Some d) (Some a)
       (consoleError (''Manim failed with error: '' @ err)
          (consoleError (''Manim failed with output: '' @ out) w)) = (r1, w')"
    by (auto simp: manim_on_close_def split: prod.splits sum.splits)
  from cleanup_prompts [OF this] show ?thesis by simp
next
  case False
  obtain r1 w1 where t: "manim_close_try env renderId d a out err w = (r1, w1)"
    by (cases "manim_close_try env renderId d a out err w")
  have p1: "prompts (trace w1) = prompts (trace w)" using manim_close_try_prompts [OF t] .
  show ?thesis
  proof (cases r1)
    case (Inr resp)
    with assms False t p1 show ?thesis by (simp add: manim_on_close_def)
  next
    case (Inl e)
    with assms False t obtain r2 where
      "cleanup env (Some d) (Some a)
         (consoleError (''Error processing video/audio combination: '' @ e) w1) = (r2, w')"
      by (auto simp: manim_on_close_def split: prod.splits sum.splits)
    from cleanup_after_log_prompts [OF this] p1 show ?thesis by simp
  qed
qed

lemma render_job_prompts:
  assumes run: "render_job env steps renderId w = (r, w')"
  shows "prompts (trace w') = prompts (trace w)"
proof -
  let ?rd = "path_join rendersDir renderId"
  obtain r1 w1 where mk: "mkdirSync ?rd w = (r1, w1)" by (cases "mkdirSync ?rd w")
  have t1: "trace w1 = trace w" using mkdirSync_trace [OF mk] .
  show ?thesis
  proof (cases r1)
    case (Inl e)
    with run mk have "getAnimation_catch env (Some ?rd) None e w1 = (r, w')"
      by (simp add: render_job_def Let_def)
    from catch_prompts [OF this] t1 show ?thesis by simp
  next
    case (Inr u)
    obtain r2 w2 where wr: "writeFileSync (path_join ?rd ''animation.py'') w1 = (r2, w2)"
      by (cases "writeFileSync (path_join ?rd ''animation.py'') w1")
    have t2: "trace w2 = trace w" using writeFileSync_trace [OF wr] t1 by simp
    show ?thesis
    proof (cases r2)
      case (Inl e)
      with run mk \<open>r1 = Inr u\<close> wr
      have "getAnimation_catch env (Some ?rd) None e w2 = (r, w')"
        by (simp add: render_job_def Let_def)
      from catch_prompts [OF this] t2 show ?thesis by simp
    next
      case (Inr u')
      obtain r3 w3 where ga: "generateAudio env steps renderId w2 = (r3, w3)"
        by (cases "generateAudio env steps renderId w2")
      have p3: "prompts (trace w3) = prompts (trace w)"
        using generateAudio_prompts [OF ga] t2 by simp
      show ?thesis
      proof (cases r3)
        case (Inl e)
        with run mk \<open>r1 = Inr u\<close> wr \<open>r2 = Inr u'\<close> ga
        have "getAnimation_catch env (Some ?rd) None e w3 = (r, w')"
          by (simp add: render_job_def Let_def)
        from catch_prompts [OF this] p3 show ?thesis by simp
      next
        case (Inr audioFilePath)
        obtain ev w4 where sp:
          "spawn env ''python'' [''-m'', ''manim'', ''animation.py'', ''-ql''] (Some ?rd) w3 = (ev, w4)"
          by (cases "spawn env ''python'' [''-m'', ''manim'', ''animation.py'', ''-ql''] (Some ?rd) w3")
        have p4: "prompts (trace w4) = prompts (trace w)" using spawn_prompts [OF sp] p3 by simp
        show ?thesis
        proof (cases ev)
          case (OnError m e)
          obtain r5 w5 where oe: "manim_on_error env ?rd audioFilePath m w4 = (r5, w5)"
            by (cases "manim_on_error env ?rd audioFilePath m w4")
          have p5: "prompts (trace w5) = prompts (trace w)"
            using manim_on_error_prompts [OF oe] p4 by simp
          show ?thesis
          proof (cases r5)
            case (Inl uncaught)
            with run mk \<open>r1 = Inr u\<close> wr \<open>r2 = Inr u'\<close> ga Inr sp OnError oe
            have "w' = w5" by (simp add: render_job_def Let_def)
            with p5 show ?thesis by simp
          next
            case sent: (Inr resp)
            obtain again w6 where oc:
              "manim_on_close env renderId ?rd audioFilePath (Some (errno_code e)) [] [] w5 =
                 (again, w6)"
              by (cases "manim_on_close env renderId ?rd audioFilePath (Some (errno_code e)) [] [] w5")
            with run mk \<open>r1 = Inr u\<close> wr \<open>r2 = Inr u'\<close> ga Inr sp OnError oe sent
            have "w' = w6" by (simp add: render_job_def Let_def)
            with manim_on_close_prompts [OF oc] p5 show ?thesis by simp
          qed
        next
          case (OnClose c out err)
          with run mk \<open>r1 = Inr u\<close> wr \<open>r2 = Inr u'\<close> ga Inr sp
          have "manim_on_close env renderId ?rd audioFilePath c out err w4 = (r, w')"
            by (simp add: render_job_def Let_def)
          from manim_on_close_prompts [OF this] p4 show ?thesis by simp
        qed
      qed
    qed
  qed
qed

lemma generateNarrationSteps_prompts:
  "generateNarrationSteps env src w = (r, w') \<Longrightarrow>
   prompts (trace w') = prompts (trace w) @ [NarrationPrompt src]"
  by (auto simp: generateNarrationSteps_def consoleError_def Let_def split: sum.splits)

lemma generateManimScript_prompts:
  "generateManimScript env src steps w = (r, w') \<Longrightarrow>
   prompts (trace w') = prompts (trace w) @ [ManimPrompt src steps]"
  by (auto simp: generateManimScript_def consoleError_def Let_def split: sum.splits)

lemma getAnimation_prompts:
  assumes "code approach = Some c"
    and "getAnimation env (Some approach) w = (r, w')"
  shows "prompts (trace w') = prompts (trace w) @ [NarrationPrompt (selectCode c)]
       \<or> (\<exists>steps. prompts (trace w') =
             prompts (trace w) @ [NarrationPrompt (selectCode c), ManimPrompt (selectCode c) steps])"
proof -
  obtain r1 w1 where n: "generateNarrationSteps env (selectCode c) w = (r1, w1)"
    by (cases "generateNarrationSteps env (selectCode c) w")
  note p1 = generateNarrationSteps_prompts [OF n]
  show ?thesis
  proof (cases r1)
    case (Inl e)
    with n assms have "getAnimation_catch env None None e w1 = (r, w')"
      by (simp add: getAnimation_def Let_def)
    from catch_prompts [OF this] p1 show ?thesis by simp
  next
    case (Inr steps)
    obtain r2 w2 where m: "generateManimScript env (selectCode c) steps w1 = (r2, w2)"
      by (cases "generateManimScript env (selectCode c) steps w1")
    have p2: "prompts (trace w2) =
              prompts (trace w) @ [NarrationPrompt (selectCode c), ManimPrompt (selectCode c) steps]"
      using generateManimScript_prompts [OF m] p1 by simp
    show ?thesis
    proof (cases r2)
      case (Inl e)
      with n m Inr assms have "getAnimation_catch env None None e w2 = (r, w')"
        by (simp add: getAnimation_def Let_def)
      from catch_prompts [OF this] p2 show ?thesis by auto
    next
      case (Inr idc)
      obtain scriptId content where idc: "idc = (scriptId, content)" by (cases idc)
      from n m \<open>r1 = Inr steps\<close> Inr idc assms
      have "render_job env steps scriptId w2 = (r, w')"
        by (simp add: getAnimation_def Let_def)
      from render_job_prompts [OF this] p2 show ?thesis by auto
    qed
  qed
qed

subsection \<open>Failure responses\<close>































subsection \<open>The sample runs\<close>


lemma sample_run_ok:
  "getAnimation (sample_env [] 0 0 ''AlgorithmDemo.mp4'' 0) sample_request sample_world =
   (Inr \<lparr>status = 200, body = [(''videoUrl'', ''/videos/j1/AlgorithmDemo_with_audio.mp4'')]\<rparr>,
    \<lparr>tree =
       DirN True
        [(''renders'', DirN True []),
         (''videos'', DirN True [(''j1'', DirN True [(''AlgorithmDemo_with_audio.mp4'', FileN)])]),
         (''audio'', DirN True [])],
     trace =
       [Generated (NarrationPrompt (JStr ''class Sort {}'')),
        Generated (ManimPrompt (JStr ''class Sort {}'') (Steps [''one'', ''two''])),
        Spawned ''python'' [''audio/j1_script.py''] None,
        Spawned ''python'' [''-m'', ''manim'', ''animation.py'', ''-ql''] (Some ''renders/j1''),
        Spawned ''ffmpeg''
          [''-i'', ''renders/j1/media/videos/animation/480p15/AlgorithmDemo.mp4'',
           ''-i'', ''audio/j1.wav'', ''-c:v'', ''copy'', ''-c:a'', ''aac'',
           ''-shortest'', ''-y'', ''videos/j1/AlgorithmDemo_with_audio.mp4'']
          None]\<rparr>)"
  by (simp add: eval_defs)

lemma sample_run_locked_renders:
  "getAnimation (sample_env [''renders/j1''] 0 0 ''AlgorithmDemo.mp4'' 0) sample_request sample_world =
   (Inr \<lparr>status = 200, body = [(''videoUrl'', ''/videos/j1/AlgorithmDemo_with_audio.mp4'')]\<rparr>,
    \<lparr>tree =
       DirN True
        [(''renders'',
          DirN True
           [(''j1'',
             DirN True
              [(''animation.py'', FileN),
               (''media'',
                DirN True
                 [(''videos'',
                   DirN True
                    [(''animation'',
                      DirN True [(''480p15'', DirN True [(''AlgorithmDemo.mp4'', FileN)])])])])])]),
         (''videos'', DirN True [(''j1'', DirN True [(''AlgorithmDemo_with_audio.mp4'', FileN)])]),
         (''audio'', DirN True [])],
     trace =
       [Generated (NarrationPrompt (JStr ''class Sort {}'')),
        Generated (ManimPrompt (JStr ''class Sort {}'') (Steps [''one'', ''two''])),
        Spawned ''python'' [''audio/j1_script.py''] None,
        Spawned ''python'' [''-m'', ''manim'', ''animation.py'', ''-ql''] (Some ''renders/j1''),
        Spawned ''ffmpeg''
          [''-i'', ''renders/j1/media/videos/animation/480p15/AlgorithmDemo.mp4'',
           ''-i'', ''audio/j1.wav'', ''-c:v'', ''copy'', ''-c:a'', ''aac'',
           ''-shortest'', ''-y'', ''videos/j1/AlgorithmDemo_with_audio.mp4'']
          None,
        ConsoleError ''Error deleting directory renders/j1: EPERM'']\<rparr>)"
  by (simp add: eval_defs)

lemma sample_run_locked_audio:
  "getAnimation (sample_env [''audio/j1.wav''] 0 0 ''AlgorithmDemo.mp4'' 0) sample_request sample_world =
   (Inl ''EPERM'',
    \<lparr>tree =
       DirN True
        [(''renders'', DirN True []),
         (''videos'', DirN True [(''j1'', DirN True [(''AlgorithmDemo_with_audio.mp4'', FileN)])]),
         (''audio'', DirN True [(''j1.wav'', FileN)])],
     trace =
       [Generated (NarrationPrompt (JStr ''class Sort {}'')),
        Generated (ManimPrompt (JStr ''class Sort {}'') (Steps [''one'', ''two''])),
        Spawned ''python'' [''audio/j1_script.py''] None,
        Spawned ''python'' [''-m'', ''manim'', ''animation.py'', ''-ql''] (Some ''renders/j1''),
        Spawned ''ffmpeg''
          [''-i'', ''renders/j1/media/videos/animation/480p15/AlgorithmDemo.mp4'',
           ''-i'', ''audio/j1.wav'', ''-c:v'', ''copy'', ''-c:a'', ''aac'',
           ''-shortest'', ''-y'', ''videos/j1/AlgorithmDemo_with_audio.mp4'']
          None,
        ConsoleError ''Error processing video/audio combination: EPERM'']\<rparr>)"
  by (simp add: eval_defs)

lemma sample_run_speech_fails:
  "getAnimation (sample_env [] 1 0 ''AlgorithmDemo.mp4'' 0) sample_request sample_world =
   (Inr \<lparr>status = 500,
          body = [(''error'', ''Failed to generate animation with audio''),
                  (''details'', ''Audio generation failed: tts-err'')]\<rparr>,
    \<lparr>tree =
       DirN True
        [(''renders'', DirN True []), (''videos'', DirN True []),
         (''audio'', DirN True [(''j1.wav'', FileN)])],
     trace =
       [Generated (NarrationPrompt (JStr ''class Sort {}'')),
        Generated (ManimPrompt (JStr ''class Sort {}'') (Steps [''one'', ''two''])),
        Spawned ''python'' [''audio/j1_script.py''] None,
        ConsoleError ''Audio generation failed: tts-err'',
        ConsoleError ''Error in /api/getAnimation: Audio generation failed: tts-err'']\<rparr>)"
  by (simp add: eval_defs)

text \<open>
  Runs in which a child fails to start. For the renderer both listeners leave their lines on
  the console: the \<^verbatim>\<open>error\<close> listener answers, the \<^verbatim>\<open>close\<close> listener logs the empty
  streams and cleans up again. For the speech process the script is removed by the
  \<^verbatim>\<open>close\<close> listener although the promise was rejected before.
\<close>

lemma sample_run_render_not_started:
  "getAnimation (sample_env [] 0 (- 1) ''AlgorithmDemo.mp4'' 0) sample_request sample_world =
   (Inr \<lparr>status = 500,
          body = [(''error'', ''Failed to start Manim process''),
                  (''details'', ''spawn python ENOENT'')]\<rparr>,
    \<lparr>tree =
       DirN True
        [(''renders'', DirN True []), (''videos'', DirN True []), (''audio'', DirN True [])],
     trace =
       [Generated (NarrationPrompt (JStr ''class Sort {}'')),
        Generated (ManimPrompt (JStr ''class Sort {}'') (Steps [''one'', ''two''])),
        Spawned ''python'' [''audio/j1_script.py''] None,
        Spawned ''python'' [''-m'', ''manim'', ''animation.py'', ''-ql''] (Some ''renders/j1''),
        ConsoleError ''Failed to start Manim process: spawn python ENOENT'',
        ConsoleError ''Manim failed with output: '',
        ConsoleError ''Manim failed with error: '']\<rparr>)"
  by (simp add: eval_defs)

lemma sample_run_speech_not_started:
  "getAnimation (sample_env [] (- 1) 0 ''AlgorithmDemo.mp4'' 0) sample_request sample_world =
   (Inr \<lparr>status = 500,
          body = [(''error'', ''Failed to generate animation with audio''),
                  (''details'', ''Failed to start audio generation: spawn python ENOENT'')]\<rparr>,
    \<lparr>tree =
       DirN True
        [(''renders'', DirN True []), (''videos'', DirN True []), (''audio'', DirN True [])],
     trace =
       [Generated (NarrationPrompt (JStr ''class Sort {}'')),
        Generated (ManimPrompt (JStr ''class Sort {}'') (Steps [''one'', ''two''])),
        Spawned ''python'' [''audio/j1_script.py''] None,
        ConsoleError ''Audio generation failed: '',
        ConsoleError
          ''Error in /api/getAnimation: Failed to start audio generation: spawn python ENOENT'']\<rparr>)"
  by (simp add: eval_defs)

lemma sample_run_dotted_name:
  "getAnimation (sample_env [] 0 0 ''sort.mp4_v2.mp4'' 0) sample_request sample_world =
   (Inr \<lparr>status = 200, body = [(''videoUrl'', ''/videos/j1/sort_v2.mp4_with_audio.mp4'')]\<rparr>,
    \<lparr>tree =
       DirN True
        [(''renders'', DirN True []),
         (''videos'', DirN True [(''j1'', DirN True [(''sort_v2.mp4_with_audio.mp4'', FileN)])]),
         (''audio'', DirN True [])],
     trace =
       [Generated (NarrationPrompt (JStr ''class Sort {}'')),
        Generated (ManimPrompt (JStr ''class Sort {}'') (Steps [''one'', ''two''])),
        Spawned ''python'' [''audio/j1_script.py''] None,
        Spawned ''python'' [''-m'', ''manim'', ''animation.py'', ''-ql''] (Some ''renders/j1''),
        Spawned ''ffmpeg''
          [''-i'', ''renders/j1/media/videos/animation/480p15/sort.mp4_v2.mp4'',
           ''-i'', ''audio/j1.wav'', ''-c:v'', ''copy'', ''-c:a'', ''aac'',
           ''-shortest'', ''-y'', ''videos/j1/sort_v2.mp4_with_audio.mp4'']
          None]\<rparr>)"
  by (simp add: eval_defs)

subsection \<open>Removing the extension\<close>

lemma prefix_snoc_shorter:
  "prefix p (xs @ [a]) \<Longrightarrow> length p \<le> length xs \<Longrightarrow> prefix p xs"
  by (metis Suc_n_not_le_n length_append_singleton prefix_snoc)

lemma replace_first_strips_extension:
  "\<not> contains ''.mp4'' (base @ ''.mp'') \<Longrightarrow> replace_first ''.mp4'' [] (base @ ''.mp4'') = base"
proof (induction base)
  case Nil
  show ?case by simp
next
  case (Cons c cs)
  from Cons.prems have np: "\<not> prefix ''.mp4'' ((c # cs) @ ''.mp'')"
    and nc: "\<not> contains ''.mp4'' (cs @ ''.mp'')" by auto
  have "\<not> prefix ''.mp4'' ((c # cs) @ ''.mp4'')"
  proof
    assume p: "prefix ''.mp4'' ((c # cs) @ ''.mp4'')"
    have e: "(c # cs) @ ''.mp4'' = ((c # cs) @ ''.mp'') @ [CHR ''4'']" by simp
    from p have "prefix ''.mp4'' (((c # cs) @ ''.mp'') @ [CHR ''4''])" unfolding e .
    then have "prefix ''.mp4'' ((c # cs) @ ''.mp'')"
      by (rule prefix_snoc_shorter) simp
    with np show False ..
  qed
  then have np4: "\<not> prefix ''.mp4'' (c # (cs @ ''.mp4''))" by (simp only: append_Cons not_False_eq_True)
  have "replace_first ''.mp4'' [] (c # (cs @ ''.mp4'')) =
        c # replace_first ''.mp4'' [] (cs @ ''.mp4'')"
    by (simp only: replace_first.simps np4 if_False)
  with Cons.IH [OF nc] show ?case by (simp only: append_Cons not_False_eq_True)
qed

section \<open>The claims\<close>

subsection \<open>Clean-up of the job's working directory and audio file\<close>

text \<open>
  Claim C1, as amended. For every execution of the \<^verbatim>\<open>/api/getAnimation\<close> handler that sends
  a response: if \<^verbatim>\<open>renders/<jobId>\<close> did not exist before the request and the operating
  system does not refuse to remove it, it does not exist afterwards; and if the renderer
  was spawned during the request, which happens only after speech synthesis has resolved,
  \<^verbatim>\<open>audio/<jobId>.wav\<close> does not exist afterwards. \<open>deleteDirectory\<close> never raises: it
  does nothing on a missing path, and when the removal fails it writes the error to the
  console and returns.
\<close>

theorem getAnimation_cleans_up:
  "(getAnimation env req w = (Inr resp, w')
      \<and> \<not> existsSync w (path_join rendersDir (uuidv4 env))
      \<and> path_join rendersDir (uuidv4 env) \<notin> set (undeletable env)
      \<longrightarrow> \<not> existsSync w' (path_join rendersDir (uuidv4 env)))
   \<and> (getAnimation env req w = (Inr resp, w')
      \<and> manim_spawn (uuidv4 env) \<notin> set (spawns (trace w))
      \<and> manim_spawn (uuidv4 env) \<in> set (spawns (trace w'))
      \<longrightarrow> \<not> existsSync w' (path_join audioDir (uuidv4 env @ ''.wav'')))
   \<and> (\<exists>w1. deleteDirectory env dirPath w = (Inr (), w1))
   \<and> (\<not> existsSync w dirPath \<longrightarrow> deleteDirectory env dirPath w = (Inr (), w))
   \<and> (existsSync w dirPath \<and> rmSync env dirPath w = (Inl e, w2) \<longrightarrow>
        deleteDirectory env dirPath w =
          (Inr (), consoleError (''Error deleting directory '' @ dirPath @ '': '' @ e) w))"
proof -
  have 1: "getAnimation env req w = (Inr resp, w')
      \<and> \<not> existsSync w (path_join rendersDir (uuidv4 env))
      \<and> path_join rendersDir (uuidv4 env) \<notin> set (undeletable env)
      \<longrightarrow> \<not> existsSync w' (path_join rendersDir (uuidv4 env))"
    using getAnimation_renderDir_absent by blast
  have 2: "getAnimation env req w = (Inr resp, w')
      \<and> manim_spawn (uuidv4 env) \<notin> set (spawns (trace w))
      \<and> manim_spawn (uuidv4 env) \<in> set (spawns (trace w'))
      \<longrightarrow> \<not> existsSync w' (path_join audioDir (uuidv4 env @ ''.wav''))"
    using getAnimation_audio_absent by blast
  have 3: "\<exists>w1. deleteDirectory env dirPath w = (Inr (), w1)"
    by (rule deleteDirectory_never_raises)
  have 4: "\<not> existsSync w dirPath \<longrightarrow> deleteDirectory env dirPath w = (Inr (), w)"
    by (simp add: deleteDirectory_def)
  have 5: "existsSync w dirPath \<and> rmSync env dirPath w = (Inl e, w2) \<longrightarrow>
        deleteDirectory env dirPath w =
          (Inr (), consoleError (''Error deleting directory '' @ dirPath @ '': '' @ e) w)"
    by (auto simp: deleteDirectory_def rmSync_def split: if_splits)
  show ?thesis by (rule conjI [OF 1 conjI [OF 2 conjI [OF 3 conjI [OF 4 5]]]])
qed

text \<open>
  Witness for C1: the successful sample run, in which the renderer is spawned and both
  resources are gone afterwards; \<open>deleteDirectory\<close> on a missing path, and on an existing
  path whose removal is refused.
\<close>

theorem getAnimation_cleans_up_witness:
  "fst (getAnimation (sample_env [] 0 0 ''AlgorithmDemo.mp4'' 0) sample_request sample_world) =
     Inr \<lparr>status = 200, body = [(''videoUrl'', ''/videos/j1/AlgorithmDemo_with_audio.mp4'')]\<rparr>
   \<and> \<not> existsSync sample_world ''renders/j1''
   \<and> ''renders/j1'' \<notin> set (undeletable (sample_env [] 0 0 ''AlgorithmDemo.mp4'' 0))
   \<and> \<not> existsSync (snd (getAnimation (sample_env [] 0 0 ''AlgorithmDemo.mp4'' 0)
                           sample_request sample_world)) ''renders/j1''
   \<and> manim_spawn ''j1'' \<notin> set (spawns (trace sample_world))
   \<and> manim_spawn ''j1'' \<in> set (spawns (trace (snd (getAnimation
         (sample_env [] 0 0 ''AlgorithmDemo.mp4'' 0) sample_request sample_world))))
   \<and> \<not> existsSync (snd (getAnimation (sample_env [] 0 0 ''AlgorithmDemo.mp4'' 0)
                           sample_request sample_world)) ''audio/j1.wav''
   \<and> deleteDirectory (sample_env [] 0 0 ''AlgorithmDemo.mp4'' 0) ''renders/j1'' sample_world =
       (Inr (), sample_world)
   \<and> existsSync sample_world ''renders''
   \<and> rmSync (sample_env [''renders''] 0 0 ''AlgorithmDemo.mp4'' 0) ''renders'' sample_world =
       (Inl ''EPERM'', sample_world)
   \<and> deleteDirectory (sample_env [''renders''] 0 0 ''AlgorithmDemo.mp4'' 0) ''renders'' sample_world =
       (Inr (), consoleError ''Error deleting directory renders: EPERM'' sample_world)"
proof -
  let ?E = "sample_env [] 0 0 ''AlgorithmDemo.mp4'' 0"
  let ?L = "sample_env [''renders''] 0 0 ''AlgorithmDemo.mp4'' 0"
  let ?run = "getAnimation ?E sample_request sample_world"
  have id: "uuidv4 ?E = ''j1''" by (simp add: sample_env_def)
  have f: "fst ?run = Inr \<lparr>status = 200,
             body = [(''videoUrl'', ''/videos/j1/AlgorithmDemo_with_audio.mp4'')]\<rparr>"
    by (simp add: sample_run_ok)
  have fresh: "\<not> existsSync sample_world ''renders/j1''" by (simp add: eval_defs)
  have unlocked: "''renders/j1'' \<notin> set (undeletable ?E)" by (simp add: sample_env_def)
  have h1: "?run = (Inr \<lparr>status = 200,
               body = [(''videoUrl'', ''/videos/j1/AlgorithmDemo_with_audio.mp4'')]\<rparr>, snd ?run)
            \<and> \<not> existsSync sample_world (path_join rendersDir (uuidv4 ?E))
            \<and> path_join rendersDir (uuidv4 ?E) \<notin> set (undeletable ?E)"
    using f fresh unlocked by (simp add: prod_eq_iff id path_join_def rendersDir_def)
  note c1 = getAnimation_cleans_up [THEN conjunct1, THEN mp, OF h1]
  have before: "manim_spawn ''j1'' \<notin> set (spawns (trace sample_world))"
    by (simp add: sample_world_def)
  have after: "manim_spawn ''j1'' \<in> set (spawns (trace (snd ?run)))"
    unfolding sample_run_ok by (simp add: manim_spawn_def path_join_def rendersDir_def)
  have h2: "?run = (Inr \<lparr>status = 200,
               body = [(''videoUrl'', ''/videos/j1/AlgorithmDemo_with_audio.mp4'')]\<rparr>, snd ?run)
            \<and> manim_spawn (uuidv4 ?E) \<notin> set (spawns (trace sample_world))
            \<and> manim_spawn (uuidv4 ?E) \<in> set (spawns (trace (snd ?run)))"
    using f before after by (simp add: prod_eq_iff id)
  note c2 = getAnimation_cleans_up [THEN conjunct2, THEN conjunct1, THEN mp, OF h2]
  note c4 = getAnimation_cleans_up [THEN conjunct2, THEN conjunct2, THEN conjunct2,
                                    THEN conjunct1, THEN mp, OF fresh]
  have ex: "existsSync sample_world ''renders''" by (simp add: eval_defs)
  have rm: "rmSync ?L ''renders'' sample_world = (Inl ''EPERM'', sample_world)"
    by (simp add: rmSync_def sample_env_def)
  note c5 = getAnimation_cleans_up [THEN conjunct2, THEN conjunct2, THEN conjunct2,
                                    THEN conjunct2, THEN mp, OF conjI [OF ex rm]]
  from c1 c2 have absent:
    "\<not> existsSync (snd ?run) ''renders/j1''" "\<not> existsSync (snd ?run) ''audio/j1.wav''"
    by (simp_all add: id path_join_def rendersDir_def audioDir_def)
  from f fresh unlocked absent before after c4 [of ?E] ex rm c5 show ?thesis by simp
qed

text \<open>
  Counterexample to C1 as stated, in three runs of job \<^verbatim>\<open>j1\<close>. When the removal of
  \<^verbatim>\<open>renders/j1\<close> is refused, the run answers 200 and the directory remains. When the
  speech process writes \<^verbatim>\<open>audio/j1.wav\<close> and exits with code 1, the run answers 500 and
  the audio file remains, the variable \<^verbatim>\<open>audioFilePath\<close> being still null in the outer
  \<^verbatim>\<open>catch\<close>. When the removal of \<^verbatim>\<open>audio/j1.wav\<close> is refused, the run that answers 200
  otherwise sends no response at all: \<^verbatim>\<open>fs.unlinkSync\<close> throws in the \<^verbatim>\<open>try\<close> block and
  again in its \<^verbatim>\<open>catch\<close> block.
\<close>

theorem cleanup_counterexample:
  "uuidv4 (sample_env [''renders/j1''] 0 0 ''AlgorithmDemo.mp4'' 0) = ''j1''
   \<and> fst (getAnimation (sample_env [''renders/j1''] 0 0 ''AlgorithmDemo.mp4'' 0)
              sample_request sample_world) =
       Inr \<lparr>status = 200, body = [(''videoUrl'', ''/videos/j1/AlgorithmDemo_with_audio.mp4'')]\<rparr>
   \<and> existsSync (snd (getAnimation (sample_env [''renders/j1''] 0 0 ''AlgorithmDemo.mp4'' 0)
                         sample_request sample_world))
         (path_join rendersDir ''j1'')
   \<and> fst (getAnimation (sample_env [] 1 0 ''AlgorithmDemo.mp4'' 0) sample_request sample_world) =
       Inr \<lparr>status = 500,
              body = [(''error'', ''Failed to generate animation with audio''),
                      (''details'', ''Audio generation failed: tts-err'')]\<rparr>
   \<and> existsSync (snd (getAnimation (sample_env [] 1 0 ''AlgorithmDemo.mp4'' 0)
                         sample_request sample_world))
         (path_join audioDir (''j1'' @ ''.wav''))
   \<and> fst (getAnimation (sample_env [] 0 0 ''AlgorithmDemo.mp4'' 0) sample_request sample_world) =
       Inr \<lparr>status = 200, body = [(''videoUrl'', ''/videos/j1/AlgorithmDemo_with_audio.mp4'')]\<rparr>
   \<and> fst (getAnimation (sample_env [''audio/j1.wav''] 0 0 ''AlgorithmDemo.mp4'' 0)
              sample_request sample_world) = Inl ''EPERM''
   \<and> existsSync (snd (getAnimation (sample_env [''audio/j1.wav''] 0 0 ''AlgorithmDemo.mp4'' 0)
                         sample_request sample_world))
         (path_join audioDir (''j1'' @ ''.wav''))"
  unfolding sample_run_ok sample_run_locked_renders sample_run_locked_audio sample_run_speech_fails
  by (simp add: sample_env_def existsSync_def path_join_def rendersDir_def audioDir_def
                segments_def)

subsection \<open>Failure responses\<close>




subsection \<open>Artifact location\<close>

text \<open>
  Claim C3. \<open>findVideoFile\<close> looks among the entries of the directory for a regular file
  whose name ends in \<^verbatim>\<open>.mp4\<close> and returns the first one in listing order, before it
  descends. If there is none it searches the subdirectories in listing order and returns
  the result of the first subdirectory in which the search finds a file. For the tree with
  \<^verbatim>\<open>a/video.mp4\<close> and \<^verbatim>\<open>a/b/out.mp4\<close> it returns \<^verbatim>\<open>a/video.mp4\<close> in either listing
  order, and for a tree without a matching file it returns null.
\<close>

theorem findVideoFile_first_match:
  "(readdir node = Inr items \<longrightarrow>
      (\<forall>name f. find is_mp4_file items = Some (name, f) \<longrightarrow>
         findVideoFile_in node dir = (Some (path_join dir name), []))
      \<and> (find is_mp4_file items = None \<longrightarrow>
           findVideoFile_in node dir = search_subdirs items dir))
   \<and> fst (search_subdirs items dir) =
        (case find (\<lambda>item. isDirectory (snd item) \<and>
                      fst (findVideoFile_in (snd item) (path_join dir (fst item))) \<noteq> None) items of
           None \<Rightarrow> None
         | Some item \<Rightarrow> fst (findVideoFile_in (snd item) (path_join dir (fst item))))
   \<and> (lookup (tree w) (segments dir) = Some node \<longrightarrow>
        fst (findVideoFile dir w) = Inr (fst (findVideoFile_in node dir)))
   \<and> fst (findVideoFile ''a'' \<lparr>tree = tree_video_first, trace = []\<rparr>) = Inr (Some ''a/video.mp4'')
   \<and> fst (findVideoFile ''a'' \<lparr>tree = tree_subdir_first, trace = []\<rparr>) = Inr (Some ''a/video.mp4'')
   \<and> (lookup (tree w) (segments dir) = Some node \<and> \<not> has_mp4 node \<longrightarrow>
        fst (findVideoFile dir w) = Inr None)"
proof (intro conjI)
  show "readdir node = Inr items \<longrightarrow>
      (\<forall>name f. find is_mp4_file items = Some (name, f) \<longrightarrow>
         findVideoFile_in node dir = (Some (path_join dir name), []))
      \<and> (find is_mp4_file items = None \<longrightarrow>
           findVideoFile_in node dir = search_subdirs items dir)"
    by (simp add: findVideoFile_in.simps)
  show "fst (search_subdirs items dir) =
        (case find (\<lambda>item. isDirectory (snd item) \<and>
                      fst (findVideoFile_in (snd item) (path_join dir (fst item))) \<noteq> None) items of
           None \<Rightarrow> None
         | Some item \<Rightarrow> fst (findVideoFile_in (snd item) (path_join dir (fst item))))"
    by (rule search_subdirs_first)
  show "lookup (tree w) (segments dir) = Some node \<longrightarrow>
        fst (findVideoFile dir w) = Inr (fst (findVideoFile_in node dir))"
    by (simp add: findVideoFile_at)
  show "fst (findVideoFile ''a'' \<lparr>tree = tree_video_first, trace = []\<rparr>) = Inr (Some ''a/video.mp4'')"
    by (simp add: findVideoFile_def tree_video_first_def segments_def findVideoFile_in.simps
                  endsWith_def path_join_def)
  show "fst (findVideoFile ''a'' \<lparr>tree = tree_subdir_first, trace = []\<rparr>) = Inr (Some ''a/video.mp4'')"
    by (simp add: findVideoFile_def tree_subdir_first_def segments_def findVideoFile_in.simps
                  endsWith_def path_join_def)
  show "lookup (tree w) (segments dir) = Some node \<and> \<not> has_mp4 node \<longrightarrow>
        fst (findVideoFile dir w) = Inr None"
    by (simp add: findVideoFile_at no_mp4_not_found)
qed

text \<open>
  Witness for C3: a directory with a matching file beside a subdirectory, a directory whose
  only matching file is inside a subdirectory, and a directory without any.
\<close>

theorem findVideoFile_first_match_witness:
  "readdir (DirN True [(''clip.mp4'', FileN), (''sub'', DirN True [])]) =
     Inr [(''clip.mp4'', FileN), (''sub'', DirN True [])]
   \<and> find is_mp4_file [(''clip.mp4'', FileN), (''sub'', DirN True [])] = Some (''clip.mp4'', FileN)
   \<and> findVideoFile_in (DirN True [(''clip.mp4'', FileN), (''sub'', DirN True [])]) ''d'' =
       (Some ''d/clip.mp4'', [])
   \<and> readdir (DirN True [(''notes.txt'', FileN), (''sub'', DirN True [(''deep.mp4'', FileN)])]) =
       Inr [(''notes.txt'', FileN), (''sub'', DirN True [(''deep.mp4'', FileN)])]
   \<and> find is_mp4_file [(''notes.txt'', FileN), (''sub'', DirN True [(''deep.mp4'', FileN)])] = None
   \<and> findVideoFile_in (DirN True [(''notes.txt'', FileN), (''sub'', DirN True [(''deep.mp4'', FileN)])]) ''d'' =
       (Some ''d/sub/deep.mp4'', [])
   \<and> lookup (tree \<lparr>tree = DirN True [(''d'', DirN True [(''notes.txt'', FileN)])], trace = []\<rparr>)
         (segments ''d'') = Some (DirN True [(''notes.txt'', FileN)])
   \<and> \<not> has_mp4 (DirN True [(''notes.txt'', FileN)])
   \<and> fst (findVideoFile ''d'' \<lparr>tree = DirN True [(''d'', DirN True [(''notes.txt'', FileN)])],
                                 trace = []\<rparr>) = Inr None"
proof -
  let ?n1 = "DirN True [(''clip.mp4'', FileN), (''sub'', DirN True [])]"
  let ?i1 = "[(''clip.mp4'', FileN), (''sub'', DirN True [])]"
  let ?n2 = "DirN True [(''notes.txt'', FileN), (''sub'', DirN True [(''deep.mp4'', FileN)])]"
  let ?i2 = "[(''notes.txt'', FileN), (''sub'', DirN True [(''deep.mp4'', FileN)])]"
  let ?n3 = "DirN True [(''notes.txt'', FileN)]"
  let ?w3 = "\<lparr>tree = DirN True [(''d'', ?n3)], trace = []\<rparr>"
  have r1: "readdir ?n1 = Inr ?i1" by simp
  have f1: "find is_mp4_file ?i1 = Some (''clip.mp4'', FileN)" by (simp add: endsWith_def)
  from findVideoFile_first_match [THEN conjunct1, THEN mp, OF r1, THEN conjunct1] f1
  have c1: "findVideoFile_in ?n1 ''d'' = (Some (path_join ''d'' ''clip.mp4''), [])" by blast
  have r2: "readdir ?n2 = Inr ?i2" by simp
  have f2: "find is_mp4_file ?i2 = None" by (simp add: endsWith_def)
  from findVideoFile_first_match [THEN conjunct1, THEN mp, OF r2, THEN conjunct2] f2
  have c2: "findVideoFile_in ?n2 ''d'' = search_subdirs ?i2 ''d''" by blast
  have s2: "search_subdirs ?i2 ''d'' = (Some ''d/sub/deep.mp4'', [])"
    by (simp add: findVideoFile_in.simps endsWith_def path_join_def truthy_path_def)
  have l3: "lookup (tree ?w3) (segments ''d'') = Some ?n3" by (simp add: segments_def)
  have h3: "\<not> has_mp4 ?n3" by (simp add: endsWith_def)
  note c3 = findVideoFile_first_match [THEN conjunct2, THEN conjunct2, THEN conjunct2,
              THEN conjunct2, THEN conjunct2, THEN mp, OF conjI [OF l3 h3]]
  from r1 f1 c1 r2 f2 c2 s2 l3 h3 c3 show ?thesis by (simp add: path_join_def)
qed

subsection \<open>Speech synthesis\<close>

text \<open>
  Claim C4. \<open>generateAudio\<close> resolves only with the path \<^verbatim>\<open>audio/<audioId>.wav\<close>, only
  when that file exists, and only after the speech process has closed with exit code 0.
  When a speech process that has started closes, the promise resolves with that path
  if the exit code is 0 and the file exists, and otherwise rejects with
  \<^verbatim>\<open>Audio generation failed: <captured stderr>\<close>. When the process fails to start, the
  promise rejects with \<^verbatim>\<open>Failed to start audio generation: <message>\<close>.
\<close>

theorem generateAudio_outcome:
  "(generateAudio env steps audioId w = (Inr p, w') \<longrightarrow>
      p = path_join audioDir (audioId @ ''.wav'') \<and> existsSync w' p
      \<and> (\<exists>narr u0 w0 out0 err0 w0'.
            join_steps steps = Inr narr
            \<and> writeFileSync (path_join audioDir (audioId @ ''_script.py'')) w = (Inr u0, w0)
            \<and> spawn env ''python'' [path_join audioDir (audioId @ ''_script.py'')] None w0 =
                 (OnClose (Some 0) out0 err0, w0')))
   \<and> (join_steps steps = Inr text
        \<and> writeFileSync (path_join audioDir (audioId @ ''_script.py'')) w = (Inr u, w1)
        \<and> spawn env ''python'' [path_join audioDir (audioId @ ''_script.py'')] None w1 =
             (OnClose c out err, w2)
        \<and> generateAudio env steps audioId w = (r, w3) \<longrightarrow>
          r = (if c = Some 0 \<and> existsSync w3 (path_join audioDir (audioId @ ''.wav''))
               then Inr (path_join audioDir (audioId @ ''.wav''))
               else Inl (''Audio generation failed: '' @ err)))
   \<and> (join_steps steps = Inr text
        \<and> writeFileSync (path_join audioDir (audioId @ ''_script.py'')) w = (Inr u, w1)
        \<and> spawn env ''python'' [path_join audioDir (audioId @ ''_script.py'')] None w1 =
             (OnError m er, w2) \<longrightarrow>
          fst (generateAudio env steps audioId w) = Inl (''Failed to start audio generation: '' @ m))"
proof -
  have 1: "generateAudio env steps audioId w = (Inr p, w') \<longrightarrow>
      p = path_join audioDir (audioId @ ''.wav'') \<and> existsSync w' p
      \<and> (\<exists>narr u0 w0 out0 err0 w0'.
            join_steps steps = Inr narr
            \<and> writeFileSync (path_join audioDir (audioId @ ''_script.py'')) w = (Inr u0, w0)
            \<and> spawn env ''python'' [path_join audioDir (audioId @ ''_script.py'')] None w0 =
                 (OnClose (Some 0) out0 err0, w0'))"
    using generateAudio_resolved generateAudio_resolved_closed by blast
  have 2: "join_steps steps = Inr text
        \<and> writeFileSync (path_join audioDir (audioId @ ''_script.py'')) w = (Inr u, w1)
        \<and> spawn env ''python'' [path_join audioDir (audioId @ ''_script.py'')] None w1 =
             (OnClose c out err, w2)
        \<and> generateAudio env steps audioId w = (r, w3) \<longrightarrow>
          r = (if c = Some 0 \<and> existsSync w3 (path_join audioDir (audioId @ ''.wav''))
               then Inr (path_join audioDir (audioId @ ''.wav''))
               else Inl (''Audio generation failed: '' @ err))"
    using generateAudio_closed by blast
  have 3: "join_steps steps = Inr text
        \<and> writeFileSync (path_join audioDir (audioId @ ''_script.py'')) w = (Inr u, w1)
        \<and> spawn env ''python'' [path_join audioDir (audioId @ ''_script.py'')] None w1 =
             (OnError m er, w2) \<longrightarrow>
          fst (generateAudio env steps audioId w) = Inl (''Failed to start audio generation: '' @ m)"
    using generateAudio_on_error by fastforce
  show ?thesis by (rule conjI [OF 1 conjI [OF 2 3]])
qed

text \<open>
  Witness for C4: a speech process that exits with code 0 and writes the file, one that exits
  with code 3, and one that does not start.
\<close>

theorem generateAudio_outcome_witness:
  "join_steps (Steps [''one'', ''two'']) = Inr ''one. two''
   \<and> fst (writeFileSync ''audio/j1_script.py'' sample_world) = Inr ()
   \<and> fst (spawn (sample_env [] 0 0 ''AlgorithmDemo.mp4'' 0) ''python'' [''audio/j1_script.py''] None
            (snd (writeFileSync ''audio/j1_script.py'' sample_world))) =
       OnClose (Some 0) ''tts-out'' ''tts-err''
   \<and> fst (generateAudio (sample_env [] 0 0 ''AlgorithmDemo.mp4'' 0) (Steps [''one'', ''two'']) ''j1''
            sample_world) = Inr ''audio/j1.wav''
   \<and> existsSync (snd (generateAudio (sample_env [] 0 0 ''AlgorithmDemo.mp4'' 0)
                         (Steps [''one'', ''two'']) ''j1'' sample_world)) ''audio/j1.wav''
   \<and> fst (spawn (sample_env [] 3 0 ''AlgorithmDemo.mp4'' 0) ''python'' [''audio/j1_script.py''] None
            (snd (writeFileSync ''audio/j1_script.py'' sample_world))) =
       OnClose (Some 3) ''tts-out'' ''tts-err''
   \<and> fst (generateAudio (sample_env [] 3 0 ''AlgorithmDemo.mp4'' 0) (Steps [''one'', ''two'']) ''j1''
            sample_world) = Inl ''Audio generation failed: tts-err''
   \<and> fst (spawn (sample_env [] (- 1) 0 ''AlgorithmDemo.mp4'' 0) ''python'' [''audio/j1_script.py'']
            None (snd (writeFileSync ''audio/j1_script.py'' sample_world))) =
       OnError ''spawn python ENOENT'' ENOENT
   \<and> fst (generateAudio (sample_env [] (- 1) 0 ''AlgorithmDemo.mp4'' 0) (Steps [''one'', ''two''])
            ''j1'' sample_world) = Inl ''Failed to start audio generation: spawn python ENOENT''"
proof -
  let ?Eo = "sample_env [] 0 0 ''AlgorithmDemo.mp4'' 0"
  let ?E3 = "sample_env [] 3 0 ''AlgorithmDemo.mp4'' 0"
  let ?Ee = "sample_env [] (- 1) 0 ''AlgorithmDemo.mp4'' 0"
  let ?st = "Steps [''one'', ''two'']"
  let ?w1 = "snd (writeFileSync ''audio/j1_script.py'' sample_world)"
  let ?Go = "generateAudio ?Eo ?st ''j1'' sample_world"
  let ?G3 = "generateAudio ?E3 ?st ''j1'' sample_world"
  let ?Ge = "generateAudio ?Ee ?st ''j1'' sample_world"
  let ?So = "spawn ?Eo ''python'' [''audio/j1_script.py''] None ?w1"
  let ?S3 = "spawn ?E3 ''python'' [''audio/j1_script.py''] None ?w1"
  let ?Se = "spawn ?Ee ''python'' [''audio/j1_script.py''] None ?w1"
  have j: "join_steps ?st = Inr ''one. two''" by simp
  have wr: "fst (writeFileSync ''audio/j1_script.py'' sample_world) = Inr ()"
    by (simp add: eval_defs)
  have so: "fst ?So = OnClose (Some 0) ''tts-out'' ''tts-err''" by (simp add: eval_defs)
  have s3: "fst ?S3 = OnClose (Some 3) ''tts-out'' ''tts-err''" by (simp add: eval_defs)
  have se: "fst ?Se = OnError ''spawn python ENOENT'' ENOENT" by (simp add: eval_defs)
  have go: "fst ?Go = Inr ''audio/j1.wav''" by (simp add: eval_defs)
  have g3: "fst ?G3 = Inl ''Audio generation failed: tts-err''" by (simp add: eval_defs)
  have h1: "?Go = (Inr ''audio/j1.wav'', snd ?Go)" by (simp add: prod_eq_iff go)
  note c1 = generateAudio_outcome [THEN conjunct1, THEN mp, OF h1]
  have h2: "join_steps ?st = Inr ''one. two''
            \<and> writeFileSync (path_join audioDir (''j1'' @ ''_script.py'')) sample_world = (Inr (), ?w1)
            \<and> spawn ?E3 ''python'' [path_join audioDir (''j1'' @ ''_script.py'')] None ?w1 =
                (OnClose (Some 3) ''tts-out'' ''tts-err'', snd ?S3)
            \<and> ?G3 = (fst ?G3, snd ?G3)"
    using j wr s3 by (simp add: prod_eq_iff path_join_def audioDir_def)
  note c2 = generateAudio_outcome [THEN conjunct2, THEN conjunct1, THEN mp, OF h2]
  have h3: "join_steps ?st = Inr ''one. two''
            \<and> writeFileSync (path_join audioDir (''j1'' @ ''_script.py'')) sample_world = (Inr (), ?w1)
            \<and> spawn ?Ee ''python'' [path_join audioDir (''j1'' @ ''_script.py'')] None ?w1 =
                (OnError ''spawn python ENOENT'' ENOENT, snd ?Se)"
    using j wr se by (simp add: prod_eq_iff path_join_def audioDir_def)
  note c3 = generateAudio_outcome [THEN conjunct2, THEN conjunct2, THEN mp, OF h3]
  from c1 have ex: "existsSync (snd ?Go) ''audio/j1.wav''"
    by (simp add: path_join_def audioDir_def)
  from c2 s3 have r3: "fst ?G3 = Inl ''Audio generation failed: tts-err''" by simp
  from j wr so go ex s3 r3 se c3 show ?thesis by (simp add: path_join_def audioDir_def)
qed

subsection \<open>The published file name\<close>

text \<open>
  Claim C5 says that a located file \<^verbatim>\<open><basename>.mp4\<close> is published as
  \<^verbatim>\<open>videos/<jobId>/<basename>_with_audio.mp4\<close> and served at the URL of the same name.
  server.js computes the base name with \<^verbatim>\<open>videoFileName.replace('.mp4', '')\<close>, which
  removes the first occurrence of \<^verbatim>\<open>.mp4\<close>, not the extension. For the rendered file
  \<^verbatim>\<open>sort.mp4_v2.mp4\<close> the run publishes \<^verbatim>\<open>videos/j1/sort_v2.mp4_with_audio.mp4\<close> and
  answers with that URL, where the claim says \<^verbatim>\<open>sort.mp4_v2_with_audio.mp4\<close>.
\<close>

theorem published_name_dotted_basename:
  "fst (getAnimation (sample_env [] 0 0 ''sort.mp4_v2.mp4'' 0) sample_request sample_world) =
     Inr \<lparr>status = 200, body = [(''videoUrl'', ''/videos/j1/sort_v2.mp4_with_audio.mp4'')]\<rparr>
   \<and> last (spawns (trace (snd (getAnimation (sample_env [] 0 0 ''sort.mp4_v2.mp4'' 0)
                                  sample_request sample_world)))) =
       (''ffmpeg'',
        [''-i'', ''renders/j1/media/videos/animation/480p15/sort.mp4_v2.mp4'',
         ''-i'', ''audio/j1.wav'', ''-c:v'', ''copy'', ''-c:a'', ''aac'',
         ''-shortest'', ''-y'', ''videos/j1/sort_v2.mp4_with_audio.mp4''], None)
   \<and> ''/videos/j1/sort_v2.mp4_with_audio.mp4'' \<noteq>
       ''/videos/'' @ ''j1'' @ ''/'' @ ''sort.mp4_v2'' @ ''_with_audio.mp4''"
  by (simp add: sample_run_dotted_name)

subsection \<open>The muxer\<close>

text \<open>
  Claim C6. Every call of \<open>combineVideoAndAudio\<close> spawns exactly one process,
  \<^verbatim>\<open>ffmpeg -i <video> -i <audio> -c:v copy -c:a aac -shortest -y <output>\<close>: the video
  stream is copied, the audio is encoded to AAC, the output ends with the shorter input,
  and an existing output file is overwritten. When the process exits, the promise resolves
  with the output path if the code is 0 and otherwise rejects with
  \<^verbatim>\<open>FFmpeg failed with code <code>: <captured stderr>\<close>; when the process fails to start it
  rejects with \<^verbatim>\<open>Failed to start FFmpeg: <message>\<close>.
\<close>

theorem combineVideoAndAudio_contract:
  "spawns (trace (snd (combineVideoAndAudio env videoPath audioPath outputPath w))) =
     spawns (trace w) @
     [(''ffmpeg'', [''-i'', videoPath, ''-i'', audioPath, ''-c:v'', ''copy'', ''-c:a'', ''aac'',
                   ''-shortest'', ''-y'', outputPath], None)]
   \<and> (run env ''ffmpeg'' (ffmpeg_args videoPath audioPath outputPath) None (tree w) = Exited c out err t
        \<longrightarrow> fst (combineVideoAndAudio env videoPath audioPath outputPath w) =
              (if c = Some 0 then Inr outputPath
               else Inl (''FFmpeg failed with code '' @ show_code c @ '': '' @ err)))
   \<and> (run env ''ffmpeg'' (ffmpeg_args videoPath audioPath outputPath) None (tree w) = FailedToStart m er
        \<longrightarrow> fst (combineVideoAndAudio env videoPath audioPath outputPath w) =
              Inl (''Failed to start FFmpeg: '' @ m))"
proof -
  have 1: "spawns (trace (snd (combineVideoAndAudio env videoPath audioPath outputPath w))) =
     spawns (trace w) @
     [(''ffmpeg'', [''-i'', videoPath, ''-i'', audioPath, ''-c:v'', ''copy'', ''-c:a'', ''aac'',
                   ''-shortest'', ''-y'', outputPath], None)]"
    by (cases "run env ''ffmpeg'' (ffmpeg_args videoPath audioPath outputPath) None (tree w)")
       (simp_all add: combineVideoAndAudio_def ffmpeg_on_close_def spawn_def consoleError_def
          ffmpeg_args_def Let_def)
  have 2: "run env ''ffmpeg'' (ffmpeg_args videoPath audioPath outputPath) None (tree w) = Exited c out err t
        \<longrightarrow> fst (combineVideoAndAudio env videoPath audioPath outputPath w) =
              (if c = Some 0 then Inr outputPath
               else Inl (''FFmpeg failed with code '' @ show_code c @ '': '' @ err))"
    by (simp add: combineVideoAndAudio_def ffmpeg_on_close_def spawn_def Let_def)
  have 3: "run env ''ffmpeg'' (ffmpeg_args videoPath audioPath outputPath) None (tree w) = FailedToStart m er
        \<longrightarrow> fst (combineVideoAndAudio env videoPath audioPath outputPath w) =
              Inl (''Failed to start FFmpeg: '' @ m)"
    by (simp add: combineVideoAndAudio_def ffmpeg_on_close_def spawn_def Let_def)
  show ?thesis by (rule conjI [OF 1 conjI [OF 2 3]])
qed

text \<open>
  Witness for C6: a muxer that exits with code 0, one that exits with code 2, and one that
  does not start.
\<close>

theorem combineVideoAndAudio_contract_witness:
  "run (sample_env [] 0 0 ''AlgorithmDemo.mp4'' 0) ''ffmpeg''
       (ffmpeg_args ''renders/j1/AlgorithmDemo.mp4'' ''audio/j1.wav'' ''videos/j1/out.mp4'') None
       (tree rendered_world) =
     Exited (Some 0) ''mux-out'' ''mux-err''
       (put_file [''videos'', ''j1''] ''out.mp4'' (tree rendered_world))
   \<and> fst (combineVideoAndAudio (sample_env [] 0 0 ''AlgorithmDemo.mp4'' 0)
            ''renders/j1/AlgorithmDemo.mp4'' ''audio/j1.wav'' ''videos/j1/out.mp4'' rendered_world) =
       Inr ''videos/j1/out.mp4''
   \<and> run (sample_env [] 0 0 ''AlgorithmDemo.mp4'' 2) ''ffmpeg''
       (ffmpeg_args ''renders/j1/AlgorithmDemo.mp4'' ''audio/j1.wav'' ''videos/j1/out.mp4'') None
       (tree rendered_world) =
     Exited (Some 2) ''mux-out'' ''mux-err'' (tree rendered_world)
   \<and> fst (combineVideoAndAudio (sample_env [] 0 0 ''AlgorithmDemo.mp4'' 2)
            ''renders/j1/AlgorithmDemo.mp4'' ''audio/j1.wav'' ''videos/j1/out.mp4'' rendered_world) =
       Inl ''FFmpeg failed with code 2: mux-err''
   \<and> run (sample_env [] 0 0 ''AlgorithmDemo.mp4'' (- 1)) ''ffmpeg''
       (ffmpeg_args ''renders/j1/AlgorithmDemo.mp4'' ''audio/j1.wav'' ''videos/j1/out.mp4'') None
       (tree rendered_world) = FailedToStart ''spawn ffmpeg ENOENT'' ENOENT
   \<and> fst (combineVideoAndAudio (sample_env [] 0 0 ''AlgorithmDemo.mp4'' (- 1))
            ''renders/j1/AlgorithmDemo.mp4'' ''audio/j1.wav'' ''videos/j1/out.mp4'' rendered_world) =
       Inl ''Failed to start FFmpeg: spawn ffmpeg ENOENT''"
proof -
  let ?args = "ffmpeg_args ''renders/j1/AlgorithmDemo.mp4'' ''audio/j1.wav'' ''videos/j1/out.mp4''"
  have r0: "run (sample_env [] 0 0 ''AlgorithmDemo.mp4'' 0) ''ffmpeg'' ?args None
              (tree rendered_world) =
            Exited (Some 0) ''mux-out'' ''mux-err''
              (put_file [''videos'', ''j1''] ''out.mp4'' (tree rendered_world))"
    by (simp add: sample_env_def sample_run_def ffmpeg_args_def basename_def)
  have r2: "run (sample_env [] 0 0 ''AlgorithmDemo.mp4'' 2) ''ffmpeg'' ?args None
              (tree rendered_world) =
            Exited (Some 2) ''mux-out'' ''mux-err'' (tree rendered_world)"
    by (simp add: sample_env_def sample_run_def)
  have re: "run (sample_env [] 0 0 ''AlgorithmDemo.mp4'' (- 1)) ''ffmpeg'' ?args None
              (tree rendered_world) = FailedToStart ''spawn ffmpeg ENOENT'' ENOENT"
    by (simp add: sample_env_def sample_run_def)
  note c0 = combineVideoAndAudio_contract [THEN conjunct2, THEN conjunct1, THEN mp, OF r0]
  note c2 = combineVideoAndAudio_contract [THEN conjunct2, THEN conjunct1, THEN mp, OF r2]
  note ce = combineVideoAndAudio_contract [THEN conjunct2, THEN conjunct2, THEN mp, OF re]
  from r0 r2 re c0 c2 ce show ?thesis
    by (simp add: show_code_def show_int_def show_nat.simps digit_def)
qed

subsection \<open>Cleaning the text generator's answer\<close>

text \<open>
  Claim C7. \<open>cleanJsonResponse\<close> maps the fenced input
  \<^verbatim>\<open>```json\n[1,2]\n```\<close> to \<^verbatim>\<open>[1,2]\<close>, and an input in which no code-fence marker
  (three backquotes) occurs is returned unchanged except for the trimming of surrounding
  white space.
\<close>

theorem cleanJsonResponse_strips_fences:
  "cleanJsonResponse (''```json'' @ ''\<newline>'' @ ''[1,2]'' @ ''\<newline>'' @ ''```'') = ''[1,2]''
   \<and> (\<not> contains ''```'' text \<longrightarrow> cleanJsonResponse text = trim text)"
proof
  show "cleanJsonResponse (''```json'' @ ''\<newline>'' @ ''[1,2]'' @ ''\<newline>'' @ ''```'') = ''[1,2]''"
    by (simp add: cleanJsonResponse_def trim_def is_space_def)
next
  show "\<not> contains ''```'' text \<longrightarrow> cleanJsonResponse text = trim text"
    by (simp add: cleanJsonResponse_def remove_fences_no_fence)
qed

text \<open>Witness for C7: a JSON array with surrounding blanks and no fence.\<close>

theorem cleanJsonResponse_strips_fences_witness:
  "\<not> contains ''```'' ''  [3, 4] '' \<and> cleanJsonResponse ''  [3, 4] '' = ''[3, 4]''"
proof -
  have h: "\<not> contains ''```'' ''  [3, 4] ''" by simp
  have t: "trim ''  [3, 4] '' = ''[3, 4]''" by (simp add: trim_def is_space_def)
  from cleanJsonResponse_strips_fences [of "''  [3, 4] ''"] h t show ?thesis by simp
qed

subsection \<open>The speech driver script\<close>

text \<open>
  Claim C8. In every run of \<open>generateAudio\<close> that spawns the speech process, the
  \<^verbatim>\<open>close\<close> listener runs, whether the process exits with code 0, exits with another code
  or fails to start, and the first thing it does is to try to remove the driver script
  \<^verbatim>\<open>audio/<audioId>_script.py\<close> that was written before the process was spawned. If the
  removal succeeds, the script does not exist when \<open>generateAudio\<close> has settled. If it
  fails, the file system is left as the process left it, the line
  \<^verbatim>\<open>Error cleaning up script file: <error>\<close> is written to the console, and the promise
  settles as it would have otherwise: a process that closes resolves it with the audio path
  if the exit code is 0 and the audio file exists, and rejects it with the captured stderr
  if not; a process that fails to start rejects it with the message of the system error.
\<close>

theorem generateAudio_script_cleanup:
  assumes "join_steps steps = Inr text"
    and "writeFileSync (path_join audioDir (audioId @ ''_script.py'')) w = (Inr u, w1)"
    and "spawn env ''python'' [path_join audioDir (audioId @ ''_script.py'')] None w1 = (ev, w2)"
    and "generateAudio env steps audioId w = (r, w3)"
  shows "(unlinkSync env (path_join audioDir (audioId @ ''_script.py'')) w2 = (Inr u', w')
            \<longrightarrow> tree w3 = tree w'
                \<and> \<not> existsSync w3 (path_join audioDir (audioId @ ''_script.py'')))
       \<and> (unlinkSync env (path_join audioDir (audioId @ ''_script.py'')) w2 = (Inl e, w')
            \<longrightarrow> tree w3 = tree w2
                \<and> ConsoleError (''Error cleaning up script file: '' @ e) \<in> set (trace w3))
       \<and> r = (case ev of
                  OnError m er \<Rightarrow> Inl (''Failed to start audio generation: '' @ m)
                | OnClose c out err \<Rightarrow>
                    if c = Some 0 \<and> existsSync w3 (path_join audioDir (audioId @ ''.wav''))
                    then Inr (path_join audioDir (audioId @ ''.wav''))
                    else Inl (''Audio generation failed: '' @ err))"
proof -
  let ?script = "path_join audioDir (audioId @ ''_script.py'')"
  note W = generateAudio_settled_world [OF assms]
  have 1: "unlinkSync env ?script w2 = (Inr u', w') \<longrightarrow>
             tree w3 = tree w' \<and> \<not> existsSync w3 ?script"
  proof
    assume ok: "unlinkSync env ?script w2 = (Inr u', w')"
    from W unlink_script_ok [OF ok] show "tree w3 = tree w' \<and> \<not> existsSync w3 ?script"
      by (auto simp: consoleError_def existsSync_def)
  qed
  have 2: "unlinkSync env ?script w2 = (Inl e, w') \<longrightarrow>
             tree w3 = tree w2 \<and> ConsoleError (''Error cleaning up script file: '' @ e) \<in> set (trace w3)"
  proof
    assume bad: "unlinkSync env ?script w2 = (Inl e, w')"
    from W unlink_script_failed [OF bad]
    show "tree w3 = tree w2 \<and> ConsoleError (''Error cleaning up script file: '' @ e) \<in> set (trace w3)"
      by (auto simp: consoleError_def)
  qed
  note 3 = generateAudio_settled [OF assms]
  show ?thesis by (rule conjI [OF 1 conjI [OF 2 3]])
qed

text \<open>
  Witness for C8: a run in which the speech process exits with code 0 and the script is
  removed, a run in which the removal is refused and the speech process has exited with
  code 1, and a run in which the speech process does not start and the script is removed.
\<close>

theorem generateAudio_script_cleanup_witness:
  "join_steps (Steps [''one'', ''two'']) = Inr ''one. two''
   \<and> fst (writeFileSync ''audio/j1_script.py'' sample_world) = Inr ()
   \<and> fst (spawn (sample_env [] 0 0 ''AlgorithmDemo.mp4'' 0) ''python'' [''audio/j1_script.py''] None
            (snd (writeFileSync ''audio/j1_script.py'' sample_world))) =
       OnClose (Some 0) ''tts-out'' ''tts-err''
   \<and> fst (unlinkSync (sample_env [] 0 0 ''AlgorithmDemo.mp4'' 0) ''audio/j1_script.py''
            (snd (spawn (sample_env [] 0 0 ''AlgorithmDemo.mp4'' 0) ''python''
                    [''audio/j1_script.py''] None
                    (snd (writeFileSync ''audio/j1_script.py'' sample_world))))) = Inr ()
   \<and> \<not> existsSync (snd (generateAudio (sample_env [] 0 0 ''AlgorithmDemo.mp4'' 0)
                          (Steps [''one'', ''two'']) ''j1'' sample_world)) ''audio/j1_script.py''
   \<and> fst (generateAudio (sample_env [] 0 0 ''AlgorithmDemo.mp4'' 0) (Steps [''one'', ''two'']) ''j1''
            sample_world) = Inr ''audio/j1.wav''
   \<and> fst (spawn (sample_env [''audio/j1_script.py''] 1 0 ''AlgorithmDemo.mp4'' 0) ''python''
            [''audio/j1_script.py''] None
            (snd (writeFileSync ''audio/j1_script.py'' sample_world))) =
       OnClose (Some 1) ''tts-out'' ''tts-err''
   \<and> fst (unlinkSync (sample_env [''audio/j1_script.py''] 1 0 ''AlgorithmDemo.mp4'' 0)
            ''audio/j1_script.py''
            (snd (spawn (sample_env [''audio/j1_script.py''] 1 0 ''AlgorithmDemo.mp4'' 0) ''python''
                    [''audio/j1_script.py''] None
                    (snd (writeFileSync ''audio/j1_script.py'' sample_world))))) = Inl ''EPERM''
   \<and> ConsoleError ''Error cleaning up script file: EPERM''
       \<in> set (trace (snd (generateAudio (sample_env [''audio/j1_script.py''] 1 0 ''AlgorithmDemo.mp4'' 0)
                             (Steps [''one'', ''two'']) ''j1'' sample_world)))
   \<and> fst (generateAudio (sample_env [''audio/j1_script.py''] 1 0 ''AlgorithmDemo.mp4'' 0)
            (Steps [''one'', ''two'']) ''j1'' sample_world) = Inl ''Audio generation failed: tts-err''
   \<and> fst (spawn (sample_env [] (- 1) 0 ''AlgorithmDemo.mp4'' 0) ''python''
            [''audio/j1_script.py''] None
            (snd (writeFileSync ''audio/j1_script.py'' sample_world))) =
       OnError ''spawn python ENOENT'' ENOENT
   \<and> fst (unlinkSync (sample_env [] (- 1) 0 ''AlgorithmDemo.mp4'' 0) ''audio/j1_script.py''
            (snd (spawn (sample_env [] (- 1) 0 ''AlgorithmDemo.mp4'' 0) ''python''
                    [''audio/j1_script.py''] None
                    (snd (writeFileSync ''audio/j1_script.py'' sample_world))))) = Inr ()
   \<and> \<not> existsSync (snd (generateAudio (sample_env [] (- 1) 0 ''AlgorithmDemo.mp4'' 0)
                          (Steps [''one'', ''two'']) ''j1'' sample_world)) ''audio/j1_script.py''
   \<and> fst (generateAudio (sample_env [] (- 1) 0 ''AlgorithmDemo.mp4'' 0) (Steps [''one'', ''two''])
            ''j1'' sample_world) = Inl ''Failed to start audio generation: spawn python ENOENT''"
proof -
  let ?Eo = "sample_env [] 0 0 ''AlgorithmDemo.mp4'' 0"
  let ?El = "sample_env [''audio/j1_script.py''] 1 0 ''AlgorithmDemo.mp4'' 0"
  let ?st = "Steps [''one'', ''two'']"
  let ?w1 = "snd (writeFileSync ''audio/j1_script.py'' sample_world)"
  let ?Go = "generateAudio ?Eo ?st ''j1'' sample_world"
  let ?Gl = "generateAudio ?El ?st ''j1'' sample_world"
  let ?So = "spawn ?Eo ''python'' [''audio/j1_script.py''] None ?w1"
  let ?Sl = "spawn ?El ''python'' [''audio/j1_script.py''] None ?w1"
  let ?Uo = "unlinkSync ?Eo ''audio/j1_script.py'' (snd ?So)"
  let ?Ul = "unlinkSync ?El ''audio/j1_script.py'' (snd ?Sl)"
  let ?Ee = "sample_env [] (- 1) 0 ''AlgorithmDemo.mp4'' 0"
  let ?Ge = "generateAudio ?Ee ?st ''j1'' sample_world"
  let ?Se = "spawn ?Ee ''python'' [''audio/j1_script.py''] None ?w1"
  let ?Ue = "unlinkSync ?Ee ''audio/j1_script.py'' (snd ?Se)"
  have p: "path_join audioDir (''j1'' @ ''_script.py'') = ''audio/j1_script.py''"
    by (simp add: path_join_def audioDir_def)
  have q: "path_join audioDir (''j1'' @ ''.wav'') = ''audio/j1.wav''"
    by (simp add: path_join_def audioDir_def)
  have j: "join_steps ?st = Inr ''one. two''" by simp
  have wr: "fst (writeFileSync ''audio/j1_script.py'' sample_world) = Inr ()"
    by (simp add: eval_defs)
  have so: "fst ?So = OnClose (Some 0) ''tts-out'' ''tts-err''" by (simp add: eval_defs)
  have sl: "fst ?Sl = OnClose (Some 1) ''tts-out'' ''tts-err''" by (simp add: eval_defs)
  have uo: "fst ?Uo = Inr ()" by (simp add: eval_defs)
  have ul: "fst ?Ul = Inl ''EPERM''" by (simp add: eval_defs)
  have a1: "writeFileSync (path_join audioDir (''j1'' @ ''_script.py'')) sample_world = (Inr (), ?w1)"
    using wr by (simp add: prod_eq_iff path_join_def audioDir_def)
  have a2: "spawn ?Eo ''python'' [path_join audioDir (''j1'' @ ''_script.py'')] None ?w1 =
              (OnClose (Some 0) ''tts-out'' ''tts-err'', snd ?So)"
    using so by (simp add: prod_eq_iff path_join_def audioDir_def)
  have a3: "?Go = (fst ?Go, snd ?Go)" by simp
  note co = generateAudio_script_cleanup [OF j a1 a2 a3]
  have ho: "unlinkSync ?Eo (path_join audioDir (''j1'' @ ''_script.py'')) (snd ?So) =
              (Inr (), snd ?Uo)"
    using uo by (simp add: prod_eq_iff path_join_def audioDir_def)
  from co [THEN conjunct1, THEN mp, OF ho]
  have gone: "\<not> existsSync (snd ?Go) ''audio/j1_script.py''" by (simp add: path_join_def audioDir_def)
  have b2: "spawn ?El ''python'' [path_join audioDir (''j1'' @ ''_script.py'')] None ?w1 =
              (OnClose (Some 1) ''tts-out'' ''tts-err'', snd ?Sl)"
    using sl by (simp add: prod_eq_iff path_join_def audioDir_def)
  have b3: "?Gl = (fst ?Gl, snd ?Gl)" by simp
  note cl = generateAudio_script_cleanup [OF j a1 b2 b3]
  have hl: "unlinkSync ?El (path_join audioDir (''j1'' @ ''_script.py'')) (snd ?Sl) =
              (Inl ''EPERM'', snd ?Ul)"
    using ul by (simp add: prod_eq_iff path_join_def audioDir_def)
  from cl [THEN conjunct2, THEN conjunct1, THEN mp, OF hl]
  have logged: "ConsoleError ''Error cleaning up script file: EPERM'' \<in> set (trace (snd ?Gl))"
    by simp
  from cl [THEN conjunct2, THEN conjunct2]
  have rl: "fst ?Gl = Inl ''Audio generation failed: tts-err''" by simp
  have go: "fst ?Go = Inr ''audio/j1.wav''" by (simp add: eval_defs)
  have se: "fst ?Se = OnError ''spawn python ENOENT'' ENOENT" by (simp add: eval_defs)
  have ue: "fst ?Ue = Inr ()" by (simp add: eval_defs)
  have e2: "spawn ?Ee ''python'' [path_join audioDir (''j1'' @ ''_script.py'')] None ?w1 =
              (OnError ''spawn python ENOENT'' ENOENT, snd ?Se)"
    using se by (simp add: prod_eq_iff path_join_def audioDir_def)
  have e3: "?Ge = (fst ?Ge, snd ?Ge)" by simp
  note ce = generateAudio_script_cleanup [OF j a1 e2 e3]
  have he: "unlinkSync ?Ee (path_join audioDir (''j1'' @ ''_script.py'')) (snd ?Se) =
              (Inr (), snd ?Ue)"
    using ue by (simp add: prod_eq_iff path_join_def audioDir_def)
  from ce [THEN conjunct1, THEN mp, OF he]
  have gone_e: "\<not> existsSync (snd ?Ge) ''audio/j1_script.py''"
    by (simp add: path_join_def audioDir_def)
  from ce [THEN conjunct2, THEN conjunct2]
  have re: "fst ?Ge = Inl ''Failed to start audio generation: spawn python ENOENT''" by simp
  from j wr so uo gone go sl ul logged rl se ue gone_e re show ?thesis by simp
qed

subsection \<open>Code selection\<close>

text \<open>
  Claim C9. The source code of a request is the first truthy entry of \<^verbatim>\<open>approach.code\<close>
  in the order \<^verbatim>\<open>javaCode\<close>, \<^verbatim>\<open>cppCode\<close>, \<^verbatim>\<open>pythonCode\<close>, \<^verbatim>\<open>jsCode\<close>, and the
  value of \<^verbatim>\<open>jsCode\<close> when none of the first three is truthy; the empty string is not
  truthy, so a key bound to it is skipped. The prompts a request sends to the text
  generator are the narration prompt for the selected code and, when narration succeeded,
  the script prompt for the selected code and the narration, and no others.
\<close>

theorem selectCode_priority:
  "(truthy (javaCode c) \<longrightarrow> selectCode c = javaCode c)
   \<and> (\<not> truthy (javaCode c) \<and> truthy (cppCode c) \<longrightarrow> selectCode c = cppCode c)
   \<and> (\<not> truthy (javaCode c) \<and> \<not> truthy (cppCode c) \<and> truthy (pythonCode c)
        \<longrightarrow> selectCode c = pythonCode c)
   \<and> (\<not> truthy (javaCode c) \<and> \<not> truthy (cppCode c) \<and> \<not> truthy (pythonCode c)
        \<longrightarrow> selectCode c = jsCode c)
   \<and> \<not> truthy (JStr [])
   \<and> (code approach = Some c \<and> getAnimation env (Some approach) w = (r, w') \<longrightarrow>
        prompts (trace w') = prompts (trace w) @ [NarrationPrompt (selectCode c)]
        \<or> (\<exists>steps. prompts (trace w') =
              prompts (trace w) @ [NarrationPrompt (selectCode c), ManimPrompt (selectCode c) steps]))"
proof -
  have 1: "(truthy (javaCode c) \<longrightarrow> selectCode c = javaCode c)
   \<and> (\<not> truthy (javaCode c) \<and> truthy (cppCode c) \<longrightarrow> selectCode c = cppCode c)
   \<and> (\<not> truthy (javaCode c) \<and> \<not> truthy (cppCode c) \<and> truthy (pythonCode c)
        \<longrightarrow> selectCode c = pythonCode c)
   \<and> (\<not> truthy (javaCode c) \<and> \<not> truthy (cppCode c) \<and> \<not> truthy (pythonCode c)
        \<longrightarrow> selectCode c = jsCode c)
   \<and> \<not> truthy (JStr [])"
    by (simp add: selectCode_def js_or_def)
  have 2: "code approach = Some c \<and> getAnimation env (Some approach) w = (r, w') \<longrightarrow>
        prompts (trace w') = prompts (trace w) @ [NarrationPrompt (selectCode c)]
        \<or> (\<exists>steps. prompts (trace w') =
              prompts (trace w) @ [NarrationPrompt (selectCode c), ManimPrompt (selectCode c) steps])"
    using getAnimation_prompts by blast
  from 1 2 show ?thesis by blast
qed

text \<open>
  Witness for C9: one code mapping for each of the four priority cases, and the prompts of
  the successful sample run.
\<close>

theorem selectCode_priority_witness:
  "truthy (JStr ''class A {}'')
   \<and> selectCode \<lparr>javaCode = JStr ''class A {}'', cppCode = JStr ''int main() {}'',
                  pythonCode = JUndefined, jsCode = JUndefined\<rparr> = JStr ''class A {}''
   \<and> \<not> truthy (JStr []) \<and> truthy (JStr ''int main() {}'')
   \<and> selectCode \<lparr>javaCode = JStr [], cppCode = JStr ''int main() {}'',
                  pythonCode = JStr ''pass'', jsCode = JUndefined\<rparr> = JStr ''int main() {}''
   \<and> \<not> truthy JNull \<and> \<not> truthy JUndefined \<and> truthy (JStr ''pass'')
   \<and> selectCode \<lparr>javaCode = JNull, cppCode = JUndefined,
                  pythonCode = JStr ''pass'', jsCode = JStr ''let x''\<rparr> = JStr ''pass''
   \<and> selectCode \<lparr>javaCode = JNull, cppCode = JUndefined,
                  pythonCode = JStr [], jsCode = JStr ''let x''\<rparr> = JStr ''let x''
   \<and> prompts (trace (snd (getAnimation (sample_env [] 0 0 ''AlgorithmDemo.mp4'' 0)
                              sample_request sample_world))) =
       [NarrationPrompt (JStr ''class Sort {}''),
        ManimPrompt (JStr ''class Sort {}'') (Steps [''one'', ''two''])]"
proof -
  let ?c1 = "\<lparr>javaCode = JStr ''class A {}'', cppCode = JStr ''int main() {}'',
              pythonCode = JUndefined, jsCode = JUndefined\<rparr>"
  let ?c2 = "\<lparr>javaCode = JStr [], cppCode = JStr ''int main() {}'',
              pythonCode = JStr ''pass'', jsCode = JUndefined\<rparr>"
  let ?c3 = "\<lparr>javaCode = JNull, cppCode = JUndefined,
              pythonCode = JStr ''pass'', jsCode = JStr ''let x''\<rparr>"
  let ?c4 = "\<lparr>javaCode = JNull, cppCode = JUndefined,
              pythonCode = JStr [], jsCode = JStr ''let x''\<rparr>"
  let ?cs = "\<lparr>javaCode = JStr ''class Sort {}'', cppCode = JUndefined,
              pythonCode = JUndefined, jsCode = JUndefined\<rparr>"
  let ?E = "sample_env [] 0 0 ''AlgorithmDemo.mp4'' 0"
  let ?run = "getAnimation ?E sample_request sample_world"
  have h1: "truthy (javaCode ?c1)" by simp
  note a1 = selectCode_priority [THEN conjunct1, THEN mp, OF h1]
  have h2: "\<not> truthy (javaCode ?c2) \<and> truthy (cppCode ?c2)" by simp
  note a2 = selectCode_priority [THEN conjunct2, THEN conjunct1, THEN mp, OF h2]
  have h3: "\<not> truthy (javaCode ?c3) \<and> \<not> truthy (cppCode ?c3) \<and> truthy (pythonCode ?c3)" by simp
  note a3 = selectCode_priority [THEN conjunct2, THEN conjunct2, THEN conjunct1, THEN mp, OF h3]
  have h4: "\<not> truthy (javaCode ?c4) \<and> \<not> truthy (cppCode ?c4) \<and> \<not> truthy (pythonCode ?c4)"
    by simp
  note a4 = selectCode_priority [THEN conjunct2, THEN conjunct2, THEN conjunct2, THEN conjunct1,
                                 THEN mp, OF h4]
  have h5: "code \<lparr>title = ''Bubble Sort'', code = Some ?cs\<rparr> = Some ?cs
            \<and> getAnimation ?E (Some \<lparr>title = ''Bubble Sort'', code = Some ?cs\<rparr>) sample_world =
                (fst ?run, snd ?run)"
    by (simp add: sample_request_def)
  note a5 = selectCode_priority [THEN conjunct2, THEN conjunct2, THEN conjunct2, THEN conjunct2,
                                 THEN conjunct2, THEN mp, OF h5]
  have sel: "selectCode ?cs = JStr ''class Sort {}''" by (simp add: selectCode_def js_or_def)
  have tr: "prompts (trace sample_world) = []" by (simp add: sample_world_def)
  have full: "prompts (trace (snd ?run)) =
       [NarrationPrompt (JStr ''class Sort {}''),
        ManimPrompt (JStr ''class Sort {}'') (Steps [''one'', ''two''])]"
    unfolding sample_run_ok by simp
  from a1 a2 a3 a4 a5 sel tr full show ?thesis by simp
qed

subsection \<open>Artifact location never throws\<close>

text \<open>
  Claim C10. \<open>findVideoFile\<close> returns a path or null for every directory path and every
  state of the file system, and never throws. On a path that does not exist it returns null.
  When listing the directory raises, the error is written to the console and the result is
  null; when that happens for a subdirectory during the search, the search goes on with the
  entries after it.
\<close>

theorem findVideoFile_never_throws:
  "(\<exists>result w'. findVideoFile dir w = (Inr result, w'))
   \<and> (\<not> existsSync w dir \<longrightarrow> findVideoFile dir w = (Inr None, w))
   \<and> (lookup (tree w) (segments dir) = Some node \<and> readdir node = Inl e \<longrightarrow>
        findVideoFile dir w = (Inr None, consoleError (''Error finding video file: '' @ e) w))
   \<and> (isDirectory node \<and> readdir node = Inl e \<longrightarrow>
        search_subdirs ((name, node) # items) dir =
          (fst (search_subdirs items dir),
           ConsoleError (''Error finding video file: '' @ e) # snd (search_subdirs items dir)))"
proof (intro conjI)
  show "\<exists>result w'. findVideoFile dir w = (Inr result, w')"
    by (auto simp: findVideoFile_def split: option.splits prod.splits)
  show "\<not> existsSync w dir \<longrightarrow> findVideoFile dir w = (Inr None, w)"
    by (simp add: findVideoFile_def existsSync_def)
  show "lookup (tree w) (segments dir) = Some node \<and> readdir node = Inl e \<longrightarrow>
        findVideoFile dir w = (Inr None, consoleError (''Error finding video file: '' @ e) w)"
    by (simp add: findVideoFile_def findVideoFile_in.simps consoleError_def)
  show "isDirectory node \<and> readdir node = Inl e \<longrightarrow>
        search_subdirs ((name, node) # items) dir =
          (fst (search_subdirs items dir),
           ConsoleError (''Error finding video file: '' @ e) # snd (search_subdirs items dir))"
    using search_subdirs_skips_failed by blast
qed

text \<open>
  Witness for C10: a missing path, a directory that cannot be listed, and a search that
  passes such a directory and finds a file in the next one.
\<close>

theorem findVideoFile_never_throws_witness:
  "\<not> existsSync sample_world ''renders/j1''
   \<and> findVideoFile ''renders/j1'' sample_world = (Inr None, sample_world)
   \<and> lookup (tree \<lparr>tree = DirN True [(''locked'', DirN False [])], trace = []\<rparr>)
         (segments ''locked'') = Some (DirN False [])
   \<and> readdir (DirN False []) = Inl ''EACCES''
   \<and> findVideoFile ''locked'' \<lparr>tree = DirN True [(''locked'', DirN False [])], trace = []\<rparr> =
       (Inr None,
        \<lparr>tree = DirN True [(''locked'', DirN False [])],
         trace = [ConsoleError ''Error finding video file: EACCES'']\<rparr>)
   \<and> isDirectory (DirN False [])
   \<and> search_subdirs [(''locked'', DirN False []), (''ok'', DirN True [(''v.mp4'', FileN)])] ''d'' =
       (Some ''d/ok/v.mp4'', [ConsoleError ''Error finding video file: EACCES''])"
proof -
  let ?w = "\<lparr>tree = DirN True [(''locked'', DirN False [])], trace = []\<rparr>"
  have a: "\<not> existsSync sample_world ''renders/j1''" by (simp add: eval_defs)
  note ca = findVideoFile_never_throws [THEN conjunct2, THEN conjunct1, THEN mp, OF a]
  have l: "lookup (tree ?w) (segments ''locked'') = Some (DirN False [])"
    by (simp add: segments_def)
  have r: "readdir (DirN False []) = Inl ''EACCES''" by simp
  note cb = findVideoFile_never_throws [THEN conjunct2, THEN conjunct2, THEN conjunct1,
              THEN mp, OF conjI [OF l r]]
  have d: "isDirectory (DirN False [])" by simp
  note cc = findVideoFile_never_throws [THEN conjunct2, THEN conjunct2, THEN conjunct2,
              THEN mp, OF conjI [OF d r],
              of "''locked''" "[(''ok'', DirN True [(''v.mp4'', FileN)])]" "''d''"]
  have s: "search_subdirs [(''ok'', DirN True [(''v.mp4'', FileN)])] ''d'' = (Some ''d/ok/v.mp4'', [])"
    by (simp add: findVideoFile_in.simps endsWith_def path_join_def truthy_path_def)
  from a ca l r cb d cc s show ?thesis by (simp add: consoleError_def)
qed

end
